theory Spec2Isabelle
  imports Main "HOL-Library.Word"
begin

unbundle bit_operations_syntax

section \<open>Go primitives used by stackgen\<close>

text \<open>
  Go strings are byte strings, so they are \<^typ>\<open>string\<close> here. Go's \<open>int\<close> has 64
  bits. The catalog's ports, the lengths and the loop counters, which the length of a
  list of the Project bounds, stay far from the limits and are read as \<^typ>\<open>int\<close>; an
  addition to a port that comes from the configuration file wraps around, and the
  wrap-around is written out (\<open>wrap64\<close>). A panic, a fatal error of the runtime and an
  error return are values of \<open>error\<close>.
\<close>

type_synonym byte = "8 word"

datatype error =
    PanicNegativeLen
  | PanicIndexOutOfRange
  | PanicNilMap
  | RandReadFatal
  | AlreadyInConfiguration string
  | FailedToGenerateDatastore string error
  | FailedToGenerateRuntime string error
  | FailedToMarshalCompose error
  | External string

text \<open>Go's integer division truncates towards zero.\<close>

definition go_div :: "int \<Rightarrow> int \<Rightarrow> int" where
  "go_div a b = sgn a * sgn b * (\<bar>a\<bar> div \<bar>b\<bar>)"

text \<open>The value of a 64-bit signed integer after an operation whose exact result is \<open>x\<close>.\<close>

definition wrap64 :: "int \<Rightarrow> int" where
  "wrap64 x = (x + 2 ^ 63) mod 2 ^ 64 - 2 ^ 63"

lemma wrap64_in_range: "- (2 ^ 63) \<le> x \<Longrightarrow> x < 2 ^ 63 \<Longrightarrow> wrap64 x = x"
  by (simp add: wrap64_def)

subsection \<open>\<open>fmt.Sprintf("%d", n)\<close>\<close>

definition digits :: string where
  "digits = ''0123456789''"

fun dec_nat :: "nat \<Rightarrow> string" where
  "dec_nat n = (if n < 10 then [digits ! n] else dec_nat (n div 10) @ [digits ! (n mod 10)])"

declare dec_nat.simps [simp del]

definition fmt_d :: "int \<Rightarrow> string" where
  "fmt_d i = (if i < 0 then CHR ''-'' # dec_nat (nat (- i)) else dec_nat (nat i))"

text \<open>Two integers with the same decimal rendering are equal.\<close>

lemma distinct_digits: "distinct digits"
  by (simp add: digits_def)

lemma length_digits: "length digits = 10"
  by (simp add: digits_def)

lemma digits_nth_inj: "i < 10 \<Longrightarrow> j < 10 \<Longrightarrow> digits ! i = digits ! j \<Longrightarrow> i = j"
  using distinct_digits length_digits by (simp add: nth_eq_iff_index_eq)

lemma dec_nat_not_Nil: "dec_nat n \<noteq> []"
  by (subst dec_nat.simps) simp

lemma dec_nat_length_one: "length (dec_nat n) = Suc 0 \<longleftrightarrow> n < 10"
proof (cases "n < 10")
  case True
  then show ?thesis by (subst dec_nat.simps) simp
next
  case False
  have "dec_nat (n div 10) \<noteq> []" by (rule dec_nat_not_Nil)
  then have "0 < length (dec_nat (n div 10))" by simp
  with False show ?thesis by (subst dec_nat.simps) simp
qed

lemma dec_nat_inj: "dec_nat n = dec_nat m \<Longrightarrow> n = m"
proof (induction n arbitrary: m rule: dec_nat.induct)
  case (1 n)
  show ?case
  proof (cases "n < 10")
    case True
    have m: "m < 10"
      using "1.prems" True dec_nat_length_one [of n] dec_nat_length_one [of m] by simp
    from "1.prems" True m have "digits ! n = digits ! m"
      by (simp add: dec_nat.simps [of n] dec_nat.simps [of m])
    with True m show ?thesis by (rule digits_nth_inj)
  next
    case False
    have m: "\<not> m < 10"
      using "1.prems" False dec_nat_length_one [of n] dec_nat_length_one [of m] by simp
    from "1.prems" False m
    have eq: "dec_nat (n div 10) @ [digits ! (n mod 10)] = dec_nat (m div 10) @ [digits ! (m mod 10)]"
      by (simp add: dec_nat.simps [of n] dec_nat.simps [of m])
    then have "dec_nat (n div 10) = dec_nat (m div 10)" and d: "digits ! (n mod 10) = digits ! (m mod 10)"
      by simp_all
    with False "1.IH" have q: "n div 10 = m div 10" by simp
    have "n mod 10 = m mod 10" using d by (intro digits_nth_inj) simp_all
    with q show ?thesis by (metis div_mult_mod_eq)
  qed
qed

lemma dec_nat_hd_digit: "hd (dec_nat n) \<in> set digits"
proof (induction n rule: dec_nat.induct)
  case (1 n)
  show ?case
  proof (cases "n < 10")
    case True
    then show ?thesis by (subst dec_nat.simps) (simp add: length_digits)
  next
    case False
    with "1.IH" show ?thesis
      by (subst dec_nat.simps) (simp add: dec_nat_not_Nil)
  qed
qed

lemma dec_nat_no_minus: "dec_nat n \<noteq> CHR ''-'' # s"
proof
  assume "dec_nat n = CHR ''-'' # s"
  then have "hd (dec_nat n) = CHR ''-''" by simp
  with dec_nat_hd_digit [of n] show False by (simp add: digits_def)
qed

lemma fmt_d_inj: "fmt_d i = fmt_d j \<Longrightarrow> i = j"
proof -
  assume eq: "fmt_d i = fmt_d j"
  have neg: "\<not> (a < 0 \<and> \<not> b < 0 \<and> fmt_d a = fmt_d b)" for a b
    using dec_nat_no_minus [of "nat b" "dec_nat (nat (- a))"] by (auto simp: fmt_d_def)
  consider "i < 0" "j < 0" | "\<not> i < 0" "\<not> j < 0" | "i < 0" "\<not> j < 0" | "\<not> i < 0" "j < 0"
    by blast
  then show "i = j"
  proof cases
    case 1
    with eq have "nat (- i) = nat (- j)" by (auto simp: fmt_d_def dest: dec_nat_inj)
    with 1 show ?thesis by simp
  next
    case 2
    with eq have "nat i = nat j" by (auto simp: fmt_d_def dest: dec_nat_inj)
    with 2 show ?thesis by simp
  next
    case 3
    with eq neg [of i j] show ?thesis by simp
  next
    case 4
    with eq neg [of j i] show ?thesis by simp
  qed
qed

subsection \<open>\<open>hex.EncodeToString\<close>\<close>

definition hextable :: string where
  "hextable = ''0123456789abcdef''"

fun EncodeToString :: "byte list \<Rightarrow> string" where
  "EncodeToString [] = []"
| "EncodeToString (v # src) =
     hextable ! unat (drop_bit 4 v) # hextable ! unat (v AND 15) # EncodeToString src"

subsection \<open>The cryptographic random source\<close>

text \<open>
  \<open>crypto/rand.Read(b)\<close> of Go 1.24 and later never returns an error and always fills
  \<open>b\<close> entirely: when the operating system's source fails, the runtime ends the process
  with a fatal error, which no caller can recover from. The source is a list of read
  outcomes, one per call that asks for at least one byte: the bytes the operating system
  delivered to that call. A call that is delivered fewer bytes than the buffer holds has
  failed, and so has a call on an exhausted source. The result is the filled buffer and
  the rest of the source, or the fatal error.
\<close>

type_synonym rand_source = "byte list list"

definition rand_Read :: "nat \<Rightarrow> rand_source \<Rightarrow> error + (byte list \<times> rand_source)" where
  "rand_Read n src =
     (if n = 0 then Inr ([], src)
      else case src of
             [] \<Rightarrow> Inl RandReadFatal
           | bs # rest \<Rightarrow> if n \<le> length bs then Inr (take n bs, rest) else Inl RandReadFatal)"

section \<open>Password generation (generator.go)\<close>

text \<open>
  \<open>generatePassword\<close> and \<open>generateStrongPassword\<close> call \<open>rand.Read\<close> as a statement and
  go on with the buffer it filled.
\<close>

definition generatePassword :: "int \<Rightarrow> rand_source \<Rightarrow> error + (string \<times> rand_source)" where
  "generatePassword len rnd =
     (let n = go_div len 2 in
      if n < 0 then Inl PanicNegativeLen
      else (case rand_Read (nat n) rnd of
              Inl fatal \<Rightarrow> Inl fatal
            | Inr (bytes, rnd') \<Rightarrow> Inr (EncodeToString bytes, rnd')))"

definition chars :: string where
  "chars = ''abcdefghijklmnopqrstuvwxyzABCDEFGHIJKLMNOPQRSTUVWXYZ0123456789!@#$%''"

text \<open>The loop \<open>for i := 4; i < length; i++\<close> of \<open>generateStrongPassword\<close>.\<close>

function fill_password :: "nat \<Rightarrow> nat \<Rightarrow> byte list \<Rightarrow> string \<Rightarrow> string" where
  "fill_password i len randBytes password =
     (if i < len
      then fill_password (i + 1) len randBytes
             (password[i := chars ! (unat (randBytes ! (i - 4)) mod length chars)])
      else password)"
  by pat_completeness auto
termination
  by (relation "measure (\<lambda>(i, len, randBytes, password). len - i)") auto

declare fill_password.simps [simp del]

definition generateStrongPassword :: "int \<Rightarrow> rand_source \<Rightarrow> error + (string \<times> rand_source)" where
  "generateStrongPassword len rnd =
     (if len < 0 then Inl PanicNegativeLen
      else if len < 4 then Inl PanicIndexOutOfRange
      else (let password0 = (replicate (nat len) (CHR 0x00))
                  [0 := CHR ''A'', 1 := CHR ''a'', 2 := CHR ''1'', 3 := CHR ''!''] in
            case rand_Read (nat (len - 4)) rnd of
              Inl fatal \<Rightarrow> Inl fatal
            | Inr (randBytes, rnd') \<Rightarrow>
                Inr (fill_password 4 (nat len) randBytes password0, rnd')))"

section \<open>Character classes of the password policy\<close>

definition upper_letters :: string where
  "upper_letters = ''ABCDEFGHIJKLMNOPQRSTUVWXYZ''"

definition lower_letters :: string where
  "lower_letters = ''abcdefghijklmnopqrstuvwxyz''"

definition digit_chars :: string where
  "digit_chars = ''0123456789''"

definition policy_symbols :: string where
  "policy_symbols = ''!@#$%''"

definition ContainsAny :: "string \<Rightarrow> string \<Rightarrow> bool" where
  "ContainsAny s cs = (\<exists>c \<in> set s. c \<in> set cs)"

section \<open>The data model (models.go)\<close>

text \<open>
  \<open>DatastoreType\<close> and \<open>RuntimeType\<close> are Go string types with six named constants
  each; a value read from the command line or from a configuration file can be any
  string. Field names carry a prefix of their struct.
\<close>

type_synonym DatastoreType = string
type_synonym RuntimeType = string

definition DatastorePostgres :: DatastoreType where "DatastorePostgres = ''postgres''"
definition DatastoreMySQL :: DatastoreType where "DatastoreMySQL = ''mysql''"
definition DatastoreMSSQL :: DatastoreType where "DatastoreMSSQL = ''mssql''"
definition DatastoreNeo4j :: DatastoreType where "DatastoreNeo4j = ''neo4j''"
definition DatastoreRedis :: DatastoreType where "DatastoreRedis = ''redis''"
definition DatastoreRedisStack :: DatastoreType where "DatastoreRedisStack = ''redis-stack''"

definition RuntimeGo :: RuntimeType where "RuntimeGo = ''go''"
definition RuntimeNode :: RuntimeType where "RuntimeNode = ''node''"
definition RuntimePython :: RuntimeType where "RuntimePython = ''python''"
definition RuntimeJava :: RuntimeType where "RuntimeJava = ''java''"
definition RuntimeRust :: RuntimeType where "RuntimeRust = ''rust''"
definition RuntimeCSharp :: RuntimeType where "RuntimeCSharp = ''csharp''"

lemmas kind_defs =
  DatastorePostgres_def DatastoreMySQL_def DatastoreMSSQL_def DatastoreNeo4j_def
  DatastoreRedis_def DatastoreRedisStack_def
  RuntimeGo_def RuntimeNode_def RuntimePython_def RuntimeJava_def RuntimeRust_def
  RuntimeCSharp_def

record Volume =
  v_Source :: string
  v_Target :: string
  v_Type :: string
  v_ReadOnly :: bool

record Network =
  n_Name :: string
  n_Driver :: string

record HealthCheck =
  hc_Test :: "string list"
  hc_Interval :: string
  hc_Timeout :: string
  hc_Retries :: int
  hc_StartPeriod :: string

record Datastore =
  ds_Type :: DatastoreType
  ds_Name :: string
  ds_Image :: string
  ds_Tag :: string
  ds_Port :: int
  ds_InternalPort :: int
  ds_Volumes :: "Volume list"
  ds_Environment :: "string \<rightharpoonup> string"
  ds_HealthCheck :: "HealthCheck option"
  ds_Networks :: "string list"

record Runtime =
  rt_Type :: RuntimeType
  rt_Name :: string
  rt_Framework :: string
  rt_Port :: int
  rt_InternalPort :: int
  rt_BuildContext :: string
  rt_Dockerfile :: string
  rt_Volumes :: "Volume list"
  rt_Environment :: "string \<rightharpoonup> string"
  rt_Command :: string
  rt_DependsOn :: "string list"
  rt_Networks :: "string list"

record Project =
  p_Name :: string
  p_OutputDir :: string
  p_Datastores :: "Datastore list"
  p_Runtimes :: "Runtime list"
  p_Networks :: "Network list"
  p_Profile :: string

record EnvVar =
  ev_Key :: string
  ev_Value :: string
  ev_Description :: string
  ev_Secret :: bool

record ComposeBuild =
  cb_Context :: string
  cb_Dockerfile :: string

record ComposeHealth =
  ch_Test :: "string list"
  ch_Interval :: string
  ch_Timeout :: string
  ch_Retries :: int
  ch_StartPeriod :: string

record ComposeService =
  cs_Image :: string
  cs_Build :: "ComposeBuild option"
  cs_ContainerName :: string
  cs_Ports :: "string list"
  cs_Volumes :: "string list"
  cs_Environment :: "string \<rightharpoonup> string"
  cs_EnvFile :: "string list"
  cs_DependsOn :: "string list"
  cs_Networks :: "string list"
  cs_HealthCheck :: "ComposeHealth option"
  cs_Restart :: string
  cs_Command :: string
  cs_User :: string

text \<open>
  The values of \<open>Volumes\<close> and \<open>Networks\<close> of a compose file are \<open>interface{}\<close>; the
  generator only stores string-to-string maps there (the empty map for a volume). Both
  fields are \<open>None\<close> while the Go map is nil: a nil map can be read, and storing a key
  in it panics.
\<close>

record ComposeFile =
  cf_Version :: string
  cf_Services :: "string \<rightharpoonup> ComposeService"
  cf_Volumes :: "(string \<rightharpoonup> (string \<rightharpoonup> string)) option"
  cf_Networks :: "(string \<rightharpoonup> (string \<rightharpoonup> string)) option"

text \<open>The zero values of the structs that the code builds with partial literals.\<close>

definition Datastore_zero :: Datastore where
  "Datastore_zero =
     \<lparr>ds_Type = [], ds_Name = [], ds_Image = [], ds_Tag = [], ds_Port = 0,
      ds_InternalPort = 0, ds_Volumes = [], ds_Environment = Map.empty,
      ds_HealthCheck = None, ds_Networks = []\<rparr>"

definition Runtime_zero :: Runtime where
  "Runtime_zero =
     \<lparr>rt_Type = [], rt_Name = [], rt_Framework = [], rt_Port = 0, rt_InternalPort = 0,
      rt_BuildContext = [], rt_Dockerfile = [], rt_Volumes = [],
      rt_Environment = Map.empty, rt_Command = [], rt_DependsOn = [], rt_Networks = []\<rparr>"

definition Project_zero :: Project where
  "Project_zero =
     \<lparr>p_Name = [], p_OutputDir = [], p_Datastores = [], p_Runtimes = [],
      p_Networks = [], p_Profile = []\<rparr>"

definition ComposeService_zero :: ComposeService where
  "ComposeService_zero =
     \<lparr>cs_Image = [], cs_Build = None, cs_ContainerName = [], cs_Ports = [],
      cs_Volumes = [], cs_Environment = Map.empty, cs_EnvFile = [], cs_DependsOn = [],
      cs_Networks = [], cs_HealthCheck = None, cs_Restart = [], cs_Command = [],
      cs_User = []\<rparr>"

subsection \<open>The catalog\<close>

definition AvailableDatastores :: "DatastoreType list" where
  "AvailableDatastores =
     [DatastorePostgres, DatastoreMySQL, DatastoreMSSQL, DatastoreNeo4j, DatastoreRedis,
      DatastoreRedisStack]"

definition AvailableRuntimes :: "RuntimeType list" where
  "AvailableRuntimes =
     [RuntimeGo, RuntimeNode, RuntimePython, RuntimeJava, RuntimeRust, RuntimeCSharp]"

record DatastoreInfo =
  di_Type :: DatastoreType
  di_DisplayName :: string
  di_Description :: string
  di_DefaultPort :: int
  di_Edition :: string

record RuntimeInfo =
  ri_Type :: RuntimeType
  ri_DisplayName :: string
  ri_Description :: string
  ri_DefaultPort :: int
  ri_Frameworks :: "string list"

text \<open>A lookup in a Go map yields the zero value for a key that is not there.\<close>

definition GetDatastoreInfo :: "DatastoreType \<Rightarrow> DatastoreInfo" where
  "GetDatastoreInfo t =
     (let info =
        [DatastorePostgres \<mapsto>
           \<lparr>di_Type = DatastorePostgres, di_DisplayName = ''PostgreSQL'',
            di_Description = ''Powerful open-source relational database'',
            di_DefaultPort = 5432, di_Edition = ''Official Image''\<rparr>,
         DatastoreMySQL \<mapsto>
           \<lparr>di_Type = DatastoreMySQL, di_DisplayName = ''MySQL'',
            di_Description = ''Popular open-source relational database'',
            di_DefaultPort = 3306, di_Edition = ''Official Image''\<rparr>,
         DatastoreMSSQL \<mapsto>
           \<lparr>di_Type = DatastoreMSSQL, di_DisplayName = ''SQL Server'',
            di_Description = ''Microsoft SQL Server (Developer Edition)'',
            di_DefaultPort = 1433,
            di_Edition = ''Developer Edition - for development use only''\<rparr>,
         DatastoreNeo4j \<mapsto>
           \<lparr>di_Type = DatastoreNeo4j, di_DisplayName = ''Neo4j'',
            di_Description = ''Graph database for connected data'',
            di_DefaultPort = 7474, di_Edition = ''Community Edition''\<rparr>,
         DatastoreRedis \<mapsto>
           \<lparr>di_Type = DatastoreRedis, di_DisplayName = ''Redis'',
            di_Description = ''In-memory data store and cache'',
            di_DefaultPort = 6379, di_Edition = ''Community''\<rparr>,
         DatastoreRedisStack \<mapsto>
           \<lparr>di_Type = DatastoreRedisStack, di_DisplayName = ''Redis Stack'',
            di_Description = ''Redis with JSON, Search, TimeSeries modules'',
            di_DefaultPort = 6379, di_Edition = ''Community''\<rparr>]
      in case info t of
           Some i \<Rightarrow> i
         | None \<Rightarrow>
             \<lparr>di_Type = [], di_DisplayName = [], di_Description = [], di_DefaultPort = 0,
              di_Edition = []\<rparr>)"

definition GetRuntimeInfo :: "RuntimeType \<Rightarrow> RuntimeInfo" where
  "GetRuntimeInfo t =
     (let info =
        [RuntimeGo \<mapsto>
           \<lparr>ri_Type = RuntimeGo, ri_DisplayName = ''Go'',
            ri_Description = ''Fast, statically typed language'', ri_DefaultPort = 8080,
            ri_Frameworks = [''stdlib'', ''gin'', ''fiber'', ''echo'']\<rparr>,
         RuntimeNode \<mapsto>
           \<lparr>ri_Type = RuntimeNode, ri_DisplayName = ''Node.js'',
            ri_Description = ''JavaScript runtime for server-side'', ri_DefaultPort = 3000,
            ri_Frameworks = [''express'', ''fastify'', ''nextjs'', ''nestjs'']\<rparr>,
         RuntimePython \<mapsto>
           \<lparr>ri_Type = RuntimePython, ri_DisplayName = ''Python'',
            ri_Description = ''Versatile scripting language'', ri_DefaultPort = 8000,
            ri_Frameworks = [''fastapi'', ''flask'', ''django'']\<rparr>,
         RuntimeJava \<mapsto>
           \<lparr>ri_Type = RuntimeJava, ri_DisplayName = ''Java'',
            ri_Description = ''Enterprise-grade JVM language'', ri_DefaultPort = 8080,
            ri_Frameworks = [''spring-boot'', ''quarkus'', ''micronaut'']\<rparr>,
         RuntimeRust \<mapsto>
           \<lparr>ri_Type = RuntimeRust, ri_DisplayName = ''Rust'',
            ri_Description = ''Memory-safe systems language'', ri_DefaultPort = 8080,
            ri_Frameworks = [''actix-web'', ''axum'', ''rocket'']\<rparr>,
         RuntimeCSharp \<mapsto>
           \<lparr>ri_Type = RuntimeCSharp, ri_DisplayName = ''C# / .NET'',
            ri_Description = ''Microsoft .NET platform'', ri_DefaultPort = 5000,
            ri_Frameworks = [''aspnetcore'', ''minimal-api'']\<rparr>]
      in case info t of
           Some i \<Rightarrow> i
         | None \<Rightarrow>
             \<lparr>ri_Type = [], ri_DisplayName = [], ri_Description = [], ri_DefaultPort = 0,
              ri_Frameworks = []\<rparr>)"

text \<open>\<open>getDefaultTag\<close> is declared twice, in the packages \<open>cmd\<close> and \<open>profiles\<close>, with the same table.\<close>

definition getDefaultTag :: "DatastoreType \<Rightarrow> string" where
  "getDefaultTag dsType =
     (let tags =
        [DatastorePostgres \<mapsto> ''16-alpine'', DatastoreMySQL \<mapsto> ''8.0'',
         DatastoreMSSQL \<mapsto> ''2022-latest'', DatastoreNeo4j \<mapsto> ''5'',
         DatastoreRedis \<mapsto> ''7-alpine'', DatastoreRedisStack \<mapsto> ''latest'']
      in case tags dsType of Some tag \<Rightarrow> tag | None \<Rightarrow> [])"

section \<open>Profiles (profiles.go)\<close>

record RuntimeConfig =
  rc_Type :: RuntimeType
  rc_Framework :: string

record Profile =
  pr_Name :: string
  pr_Description :: string
  pr_Datastores :: "DatastoreType list"
  pr_Runtimes :: "RuntimeConfig list"

definition AvailableProfiles :: "Profile list" where
  "AvailableProfiles =
     [\<lparr>pr_Name = ''web-app'',
       pr_Description = ''Full-stack web application (Node.js + Postgres + Redis)'',
       pr_Datastores = [DatastorePostgres, DatastoreRedis],
       pr_Runtimes = [\<lparr>rc_Type = RuntimeNode, rc_Framework = ''express''\<rparr>]\<rparr>,
      \<lparr>pr_Name = ''api'',
       pr_Description = ''REST API backend (Go + Postgres)'',
       pr_Datastores = [DatastorePostgres],
       pr_Runtimes = [\<lparr>rc_Type = RuntimeGo, rc_Framework = ''stdlib''\<rparr>]\<rparr>,
      \<lparr>pr_Name = ''ml'',
       pr_Description = ''Machine learning / data science (Python + Postgres + Redis)'',
       pr_Datastores = [DatastorePostgres, DatastoreRedis],
       pr_Runtimes = [\<lparr>rc_Type = RuntimePython, rc_Framework = ''fastapi''\<rparr>]\<rparr>,
      \<lparr>pr_Name = ''fullstack'',
       pr_Description = ''Complete microservices stack (Node + Go + Postgres + Redis + Neo4j)'',
       pr_Datastores = [DatastorePostgres, DatastoreRedis, DatastoreNeo4j],
       pr_Runtimes =
         [\<lparr>rc_Type = RuntimeNode, rc_Framework = ''express''\<rparr>,
          \<lparr>rc_Type = RuntimeGo, rc_Framework = ''stdlib''\<rparr>]\<rparr>,
      \<lparr>pr_Name = ''java-enterprise'',
       pr_Description = ''Enterprise Java stack (Spring Boot + Postgres + Redis)'',
       pr_Datastores = [DatastorePostgres, DatastoreRedis],
       pr_Runtimes = [\<lparr>rc_Type = RuntimeJava, rc_Framework = ''spring-boot''\<rparr>]\<rparr>,
      \<lparr>pr_Name = ''dotnet'',
       pr_Description = ''.NET Core application (C# + SQL Server)'',
       pr_Datastores = [DatastoreMSSQL],
       pr_Runtimes = [\<lparr>rc_Type = RuntimeCSharp, rc_Framework = ''aspnetcore''\<rparr>]\<rparr>,
      \<lparr>pr_Name = ''rust-api'',
       pr_Description = ''High-performance Rust API (Rust + Postgres + Redis)'',
       pr_Datastores = [DatastorePostgres, DatastoreRedis],
       pr_Runtimes = [\<lparr>rc_Type = RuntimeRust, rc_Framework = ''actix-web''\<rparr>]\<rparr>]"

definition GetProfile :: "string \<Rightarrow> Profile option" where
  "GetProfile name = find (\<lambda>p. pr_Name p = name) AvailableProfiles"

text \<open>
  The three loops of \<open>BuildProjectFromProfile\<close>. \<open>portOffset\<close> is declared as 0 and
  never assigned again; \<open>runtimePortOffset\<close> grows by 1000 after every runtime.
\<close>

fun build_datastores :: "int \<Rightarrow> DatastoreType list \<Rightarrow> Project \<Rightarrow> Project" where
  "build_datastores portOffset [] project = project"
| "build_datastores portOffset (dsType # rest) project =
     (let info = GetDatastoreInfo dsType;
          ds = Datastore_zero
                 \<lparr>ds_Type := dsType, ds_Name := dsType,
                  ds_Port := di_DefaultPort info + portOffset,
                  ds_InternalPort := di_DefaultPort info, ds_Tag := getDefaultTag dsType\<rparr>
      in build_datastores portOffset rest
           (project\<lparr>p_Datastores := p_Datastores project @ [ds]\<rparr>))"

fun build_dependsOn :: "string list \<Rightarrow> DatastoreType list \<Rightarrow> string list" where
  "build_dependsOn dependsOn [] = dependsOn"
| "build_dependsOn dependsOn (dsType # rest) = build_dependsOn (dependsOn @ [dsType]) rest"

fun build_runtimes :: "int \<Rightarrow> string list \<Rightarrow> RuntimeConfig list \<Rightarrow> Project \<Rightarrow> Project" where
  "build_runtimes runtimePortOffset dependsOn [] project = project"
| "build_runtimes runtimePortOffset dependsOn (rtConfig # rest) project =
     (let info = GetRuntimeInfo (rc_Type rtConfig);
          rt = Runtime_zero
                 \<lparr>rt_Type := rc_Type rtConfig, rt_Name := rc_Type rtConfig @ ''-app'',
                  rt_Framework := rc_Framework rtConfig,
                  rt_Port := ri_DefaultPort info + runtimePortOffset,
                  rt_InternalPort := ri_DefaultPort info,
                  rt_BuildContext := rc_Type rtConfig @ ''-app'',
                  rt_Dockerfile := ''Dockerfile'', rt_DependsOn := dependsOn\<rparr>
      in build_runtimes (runtimePortOffset + 1000) dependsOn rest
           (project\<lparr>p_Runtimes := p_Runtimes project @ [rt]\<rparr>))"

definition BuildProjectFromProfile :: "Profile \<Rightarrow> string \<Rightarrow> string \<Rightarrow> Project" where
  "BuildProjectFromProfile profile projectName outputDir =
     (let project0 = Project_zero
            \<lparr>p_Name := projectName, p_OutputDir := outputDir, p_Profile := pr_Name profile\<rparr>;
          project1 = build_datastores 0 (pr_Datastores profile) project0;
          dependsOn = build_dependsOn [] (pr_Datastores profile)
      in build_runtimes 0 dependsOn (pr_Runtimes profile) project1)"


lemma build_datastores_eq:
  "build_datastores off ts project =
     project\<lparr>p_Datastores := p_Datastores project @
        map (\<lambda>t. Datastore_zero
                 \<lparr>ds_Type := t, ds_Name := t,
                  ds_Port := di_DefaultPort (GetDatastoreInfo t) + off,
                  ds_InternalPort := di_DefaultPort (GetDatastoreInfo t),
                  ds_Tag := getDefaultTag t\<rparr>) ts\<rparr>"
  by (induction ts arbitrary: project) (simp_all add: Let_def)

lemma build_dependsOn_eq: "build_dependsOn acc ts = acc @ ts"
  by (induction ts arbitrary: acc) simp_all

definition profile_runtime :: "string list \<Rightarrow> int \<Rightarrow> RuntimeConfig \<Rightarrow> Runtime" where
  "profile_runtime deps off c =
     Runtime_zero
       \<lparr>rt_Type := rc_Type c, rt_Name := rc_Type c @ ''-app'',
        rt_Framework := rc_Framework c,
        rt_Port := ri_DefaultPort (GetRuntimeInfo (rc_Type c)) + off,
        rt_InternalPort := ri_DefaultPort (GetRuntimeInfo (rc_Type c)),
        rt_BuildContext := rc_Type c @ ''-app'',
        rt_Dockerfile := ''Dockerfile'', rt_DependsOn := deps\<rparr>"

lemma build_runtimes_eq:
  "build_runtimes off deps cs project =
     project\<lparr>p_Runtimes := p_Runtimes project @
        map (\<lambda>i. profile_runtime deps (off + int i * 1000) (cs ! i)) [0..<length cs]\<rparr>"
proof (induction cs arbitrary: off project)
  case Nil
  show ?case by simp
next
  case (Cons c cs)
  show ?case
    by (simp add: Cons.IH Let_def profile_runtime_def map_upt_Suc algebra_simps del: upt_Suc)
qed

lemma BuildProjectFromProfile_datastores:
  "p_Datastores (BuildProjectFromProfile profile projectName outputDir) =
     map (\<lambda>t. Datastore_zero
                 \<lparr>ds_Type := t, ds_Name := t,
                  ds_Port := di_DefaultPort (GetDatastoreInfo t) + 0,
                  ds_InternalPort := di_DefaultPort (GetDatastoreInfo t),
                  ds_Tag := getDefaultTag t\<rparr>) (pr_Datastores profile)"
  by (simp add: BuildProjectFromProfile_def build_datastores_eq build_dependsOn_eq
      build_runtimes_eq Let_def Project_zero_def)

lemma BuildProjectFromProfile_runtimes:
  "p_Runtimes (BuildProjectFromProfile profile projectName outputDir) =
     map (\<lambda>i. profile_runtime (pr_Datastores profile) (0 + int i * 1000) (pr_Runtimes profile ! i))
       [0..<length (pr_Runtimes profile)]"
  by (simp add: BuildProjectFromProfile_def build_datastores_eq build_dependsOn_eq
      build_runtimes_eq Let_def Project_zero_def)


text \<open>
  C8. Materializing a profile gives every datastore instance the catalog default port of
  its kind, gives the runtime at index i the port default + i * 1000, and gives every
  runtime the list of the profile's datastore names, in declaration order, as its
  dependency list.
\<close>

theorem BuildProjectFromProfile_ports_and_dependencies:
  "(let project = BuildProjectFromProfile profile projectName outputDir in
    length (p_Datastores project) = length (pr_Datastores profile) \<and>
    length (p_Runtimes project) = length (pr_Runtimes profile) \<and>
    map ds_Name (p_Datastores project) = pr_Datastores profile \<and>
    (\<forall>i < length (pr_Datastores profile).
       ds_Type (p_Datastores project ! i) = pr_Datastores profile ! i \<and>
       ds_Port (p_Datastores project ! i) =
         di_DefaultPort (GetDatastoreInfo (pr_Datastores profile ! i))) \<and>
    (\<forall>i < length (pr_Runtimes profile).
       rt_Type (p_Runtimes project ! i) = rc_Type (pr_Runtimes profile ! i) \<and>
       rt_Port (p_Runtimes project ! i) =
         ri_DefaultPort (GetRuntimeInfo (rc_Type (pr_Runtimes profile ! i))) + int i * 1000 \<and>
       rt_DependsOn (p_Runtimes project ! i) = map ds_Name (p_Datastores project)))"
proof -
  let ?project = "BuildProjectFromProfile profile projectName outputDir"
  have names: "map ds_Name (p_Datastores ?project) = pr_Datastores profile"
    by (simp add: BuildProjectFromProfile_datastores comp_def Datastore_zero_def)
  have ds: "ds_Type (p_Datastores ?project ! i) = pr_Datastores profile ! i \<and>
       ds_Port (p_Datastores ?project ! i) =
         di_DefaultPort (GetDatastoreInfo (pr_Datastores profile ! i))"
    if "i < length (pr_Datastores profile)" for i
    using that by (simp add: BuildProjectFromProfile_datastores Datastore_zero_def)
  have rt: "rt_Type (p_Runtimes ?project ! i) = rc_Type (pr_Runtimes profile ! i) \<and>
       rt_Port (p_Runtimes ?project ! i) =
         ri_DefaultPort (GetRuntimeInfo (rc_Type (pr_Runtimes profile ! i))) + int i * 1000 \<and>
       rt_DependsOn (p_Runtimes ?project ! i) = pr_Datastores profile"
    if "i < length (pr_Runtimes profile)" for i
    using that by (simp add: BuildProjectFromProfile_runtimes profile_runtime_def Runtime_zero_def)
  have l1: "length (p_Datastores ?project) = length (pr_Datastores profile)"
    by (simp add: BuildProjectFromProfile_datastores)
  have l2: "length (p_Runtimes ?project) = length (pr_Runtimes profile)"
    by (simp add: BuildProjectFromProfile_runtimes)
  show ?thesis
    unfolding Let_def using names ds rt l1 l2 by simp
qed


theorem BuildProjectFromProfile_fullstack_witness:
  "GetProfile ''fullstack'' = Some (AvailableProfiles ! 3) \<and>
   ds_Port (p_Datastores (BuildProjectFromProfile (AvailableProfiles ! 3) ''demo'' ''.'') ! 2) = 7474 \<and>
   rt_Port (p_Runtimes (BuildProjectFromProfile (AvailableProfiles ! 3) ''demo'' ''.'') ! 1) = 9080 \<and>
   rt_DependsOn (p_Runtimes (BuildProjectFromProfile (AvailableProfiles ! 3) ''demo'' ''.'') ! 1)
     = [''postgres'', ''redis'', ''neo4j'']"
proof -
  let ?pr = "AvailableProfiles ! 3"
  have ds: "pr_Datastores ?pr = [''postgres'', ''redis'', ''neo4j'']"
    and len: "length (pr_Runtimes ?pr) = 2"
    by (simp_all add: AvailableProfiles_def kind_defs)
  have g: "GetProfile ''fullstack'' = Some ?pr"
    by (simp add: GetProfile_def AvailableProfiles_def)
  have info: "di_DefaultPort (GetDatastoreInfo ''neo4j'') = 7474"
    "ri_DefaultPort (GetRuntimeInfo ''go'') = 8080"
    by (simp_all add: GetDatastoreInfo_def GetRuntimeInfo_def kind_defs)
  have r1: "rc_Type (pr_Runtimes ?pr ! 1) = ''go''"
    by (simp add: AvailableProfiles_def kind_defs)
  show ?thesis
    using BuildProjectFromProfile_ports_and_dependencies [of ?pr "''demo''" "''.''", unfolded Let_def]
      g ds len info r1
    by simp
qed

section \<open>Adding to a Project (add.go)\<close>

text \<open>
  \<open>addDatastore\<close> and \<open>addRuntime\<close> mutate the Project behind their pointer argument and
  end with \<open>saveAndRegenerate\<close>, which writes the configuration file, runs the generator
  and writes its output. That call is a parameter \<open>sar\<close> giving its error; the outcome of
  an add records the returned error, the Project as the call leaves it, and the Projects
  handed to \<open>saveAndRegenerate\<close>, in order.
\<close>

record add_outcome =
  ao_err :: "error option"
  ao_project :: Project
  ao_saved :: "Project list"

text \<open>\<open>usedPorts\<close> is a \<open>map[int]bool\<close>: a key that was never stored reads as false.\<close>

definition usedPorts_datastores :: "Datastore list \<Rightarrow> int \<Rightarrow> bool" where
  "usedPorts_datastores dss =
     fold (\<lambda>ds usedPorts. usedPorts(ds_Port ds := True)) dss (\<lambda>port. False)"

definition usedPorts_runtimes :: "Runtime list \<Rightarrow> int \<Rightarrow> bool" where
  "usedPorts_runtimes rts =
     fold (\<lambda>rt usedPorts. usedPorts(rt_Port rt := True)) rts (\<lambda>port. False)"

lemma fold_mark_used:
  "fold (\<lambda>x usedPorts. usedPorts(f x := True)) xs m port \<longleftrightarrow> m port \<or> port \<in> f ` set xs"
  by (induction xs arbitrary: m) auto

lemma usedPorts_datastores_iff:
  "usedPorts_datastores dss port \<longleftrightarrow> port \<in> ds_Port ` set dss"
  by (simp add: usedPorts_datastores_def fold_mark_used)

lemma usedPorts_runtimes_iff:
  "usedPorts_runtimes rts port \<longleftrightarrow> port \<in> rt_Port ` set rts"
  by (simp add: usedPorts_runtimes_def fold_mark_used)

lemma probe_measure_decreases:
  fixes port step :: int
  assumes "finite S" and "port \<in> S" and "0 < step"
  shows "card {q \<in> S. port + step \<le> q} < card {q \<in> S. port \<le> q}"
proof (rule psubset_card_mono)
  show "finite {q \<in> S. port \<le> q}" using assms(1) by simp
  have "port \<in> {q \<in> S. port \<le> q}" and "port \<notin> {q \<in> S. port + step \<le> q}"
    using assms(2,3) by simp_all
  moreover have "{q \<in> S. port + step \<le> q} \<subseteq> {q \<in> S. port \<le> q}"
    using assms(3) by auto
  ultimately show "{q \<in> S. port + step \<le> q} \<subset> {q \<in> S. port \<le> q}"
    by blast
qed

text \<open>The loops \<open>for usedPorts[port] { port++ }\<close> and \<open>for usedPorts[port] { port += 1000 }\<close>.\<close>

function datastore_port_loop :: "Datastore list \<Rightarrow> int \<Rightarrow> int" where
  "datastore_port_loop dss port =
     (if usedPorts_datastores dss port then datastore_port_loop dss (port + 1) else port)"
  by pat_completeness auto
termination
proof (relation "measure (\<lambda>(dss, port). card {q \<in> ds_Port ` set dss. port \<le> q})")
  show "wf (measure (\<lambda>(dss, port). card {q \<in> ds_Port ` set dss. port \<le> q}))"
    by simp
next
  fix dss :: "Datastore list" and port :: int
  assume "usedPorts_datastores dss port"
  then have "port \<in> ds_Port ` set dss" by (simp add: usedPorts_datastores_iff)
  then have "card {q \<in> ds_Port ` set dss. port + 1 \<le> q} < card {q \<in> ds_Port ` set dss. port \<le> q}"
    by (intro probe_measure_decreases) simp_all
  then show "((dss, port + 1), (dss, port))
      \<in> measure (\<lambda>(dss, port). card {q \<in> ds_Port ` set dss. port \<le> q})"
    by simp
qed

declare datastore_port_loop.simps [simp del]

function runtime_port_loop :: "Runtime list \<Rightarrow> int \<Rightarrow> int" where
  "runtime_port_loop rts port =
     (if usedPorts_runtimes rts port then runtime_port_loop rts (port + 1000) else port)"
  by pat_completeness auto
termination
proof (relation "measure (\<lambda>(rts, port). card {q \<in> rt_Port ` set rts. port \<le> q})")
  show "wf (measure (\<lambda>(rts, port). card {q \<in> rt_Port ` set rts. port \<le> q}))"
    by simp
next
  fix rts :: "Runtime list" and port :: int
  assume "usedPorts_runtimes rts port"
  then have "port \<in> rt_Port ` set rts" by (simp add: usedPorts_runtimes_iff)
  then have "card {q \<in> rt_Port ` set rts. port + 1000 \<le> q} < card {q \<in> rt_Port ` set rts. port \<le> q}"
    by (intro probe_measure_decreases) simp_all
  then show "((rts, port + 1000), (rts, port))
      \<in> measure (\<lambda>(rts, port). card {q \<in> rt_Port ` set rts. port \<le> q})"
    by simp
qed

declare runtime_port_loop.simps [simp del]

definition addDatastore :: "(Project \<Rightarrow> error option) \<Rightarrow> Project \<Rightarrow> DatastoreType \<Rightarrow> add_outcome" where
  "addDatastore sar project dsType =
     (if list_ex (\<lambda>ds. ds_Type ds = dsType) (p_Datastores project)
      then \<lparr>ao_err = Some (AlreadyInConfiguration dsType), ao_project = project, ao_saved = []\<rparr>
      else
        (let info = GetDatastoreInfo dsType;
             port = datastore_port_loop (p_Datastores project) (di_DefaultPort info);
             ds = Datastore_zero
                    \<lparr>ds_Type := dsType, ds_Name := dsType, ds_Port := port,
                     ds_InternalPort := di_DefaultPort info, ds_Tag := getDefaultTag dsType\<rparr>;
             project' = project\<lparr>p_Datastores := p_Datastores project @ [ds]\<rparr>
         in \<lparr>ao_err = sar project', ao_project = project', ao_saved = [project']\<rparr>))"

text \<open>
  The naming loop of \<open>addRuntime\<close>: \<open>counter\<close> starts at 1 and \<open>name\<close> at \<open>baseName\<close>;
  while some runtime has the name, the counter is incremented and the name becomes
  \<open>fmt.Sprintf("%s-%d", baseName, counter)\<close>.
\<close>

definition suffixed :: "string \<Rightarrow> int \<Rightarrow> string" where
  "suffixed baseName counter = baseName @ ''-'' @ fmt_d counter"

lemma suffixed_inj: "suffixed b i = suffixed b j \<Longrightarrow> i = j"
  by (simp add: suffixed_def fmt_d_inj)

lemma finite_suffixed_above:
  "finite {k. counter < k \<and> suffixed b k \<in> rt_Name ` set rts}"
proof -
  have "inj (suffixed b)" by (rule injI) (rule suffixed_inj)
  then have "finite (suffixed b -` (rt_Name ` set rts))"
    by (intro finite_vimageI) simp_all
  then show ?thesis by (rule rev_finite_subset) auto
qed

function runtime_name_loop :: "Runtime list \<Rightarrow> string \<Rightarrow> int \<Rightarrow> string \<Rightarrow> string" where
  "runtime_name_loop rts baseName counter name =
     (if list_ex (\<lambda>rt. rt_Name rt = name) rts
      then runtime_name_loop rts baseName (counter + 1) (suffixed baseName (counter + 1))
      else name)"
  by pat_completeness auto
termination
proof (relation "measure (\<lambda>(rts, baseName, counter, name).
    2 * card {k. counter < k \<and> suffixed baseName k \<in> rt_Name ` set rts}
      + (if name \<in> rt_Name ` set rts then 1 else 0))")
  show "wf (measure (\<lambda>(rts, baseName, counter, name).
    2 * card {k. counter < k \<and> suffixed baseName k \<in> rt_Name ` set rts}
      + (if name \<in> rt_Name ` set rts then 1 else 0)))"
    by simp
next
  fix rts :: "Runtime list" and baseName name :: string and counter :: int
  assume "list_ex (\<lambda>rt. rt_Name rt = name) rts"
  then have name: "name \<in> rt_Name ` set rts" by (auto simp: list_ex_iff)
  let ?A = "\<lambda>c. {k. c < k \<and> suffixed baseName k \<in> rt_Name ` set rts}"
  have fin: "finite (?A c)" for c by (rule finite_suffixed_above)
  have step: "?A counter = ?A (counter + 1) \<union>
      (if suffixed baseName (counter + 1) \<in> rt_Name ` set rts then {counter + 1} else {})"
    by (auto simp: order.strict_iff_order)
  have "2 * card (?A (counter + 1))
      + (if suffixed baseName (counter + 1) \<in> rt_Name ` set rts then 1 else 0)
      < 2 * card (?A counter) + 1"
  proof (cases "suffixed baseName (counter + 1) \<in> rt_Name ` set rts")
    case True
    then have "?A counter = insert (counter + 1) (?A (counter + 1))" using step by simp
    then have "card (?A counter) = Suc (card (?A (counter + 1)))"
      using fin [of "counter + 1"] by simp
    with True show ?thesis by simp
  next
    case False
    then have "?A counter = ?A (counter + 1)" using step by simp
    with False show ?thesis by simp
  qed
  with name show "((rts, baseName, counter + 1, suffixed baseName (counter + 1)),
       (rts, baseName, counter, name))
      \<in> measure (\<lambda>(rts, baseName, counter, name).
          2 * card {k. counter < k \<and> suffixed baseName k \<in> rt_Name ` set rts}
            + (if name \<in> rt_Name ` set rts then 1 else 0))"
    by simp
qed

declare runtime_name_loop.simps [simp del]

text \<open>
  \<open>info.Frameworks[0]\<close> panics when the kind is not in the catalog (the zero
  \<open>RuntimeInfo\<close> has no framework). With more than one framework the user is asked:
  \<open>prompt\<close> is what \<open>promptui\<close> returns as the selected item.
\<close>

definition addRuntime ::
  "(Project \<Rightarrow> error option) \<Rightarrow> (string list \<Rightarrow> string) \<Rightarrow> Project \<Rightarrow> RuntimeType \<Rightarrow> add_outcome" where
  "addRuntime sar prompt project rtType =
     (let info = GetRuntimeInfo rtType in
      case ri_Frameworks info of
        [] \<Rightarrow> \<lparr>ao_err = Some PanicIndexOutOfRange, ao_project = project, ao_saved = []\<rparr>
      | framework0 # others \<Rightarrow>
        (let framework = (if 1 < length (ri_Frameworks info)
                          then prompt (ri_Frameworks info) else framework0);
             baseName = rtType @ ''-app'';
             name = runtime_name_loop (p_Runtimes project) baseName 1 baseName;
             port = runtime_port_loop (p_Runtimes project) (ri_DefaultPort info);
             dependsOn = fold (\<lambda>ds dependsOn. dependsOn @ [ds_Name ds]) (p_Datastores project) [];
             rt = Runtime_zero
                    \<lparr>rt_Type := rtType, rt_Name := name, rt_Framework := framework,
                     rt_Port := port, rt_InternalPort := ri_DefaultPort info,
                     rt_BuildContext := name, rt_Dockerfile := ''Dockerfile'',
                     rt_DependsOn := dependsOn\<rparr>;
             project' = project\<lparr>p_Runtimes := p_Runtimes project @ [rt]\<rparr>
         in \<lparr>ao_err = sar project', ao_project = project', ao_saved = [project']\<rparr>))"

lemma datastore_port_loop_probe:
  "\<exists>k::nat. datastore_port_loop dss port = port + int k \<and>
     (\<forall>j<k. port + int j \<in> ds_Port ` set dss) \<and>
     port + int k \<notin> ds_Port ` set dss"
proof (induction dss port rule: datastore_port_loop.induct)
  case (1 dss port)
  show ?case
  proof (cases "usedPorts_datastores dss port")
    case False
    then have "datastore_port_loop dss port = port + int 0" 
      and "port + int 0 \<notin> ds_Port ` set dss"
      by (simp_all add: datastore_port_loop.simps [of dss port] usedPorts_datastores_iff)
    then show ?thesis by blast
  next
    case True
    from "1.IH" [OF True] obtain k :: nat where
      k: "datastore_port_loop dss (port + 1) = port + 1 + int k"
        "\<forall>j<k. port + 1 + int j \<in> ds_Port ` set dss"
        "port + 1 + int k \<notin> ds_Port ` set dss"
      by blast
    have "datastore_port_loop dss port = port + int (Suc k)"
      using True k(1) by (simp add: datastore_port_loop.simps [of dss port])
    moreover have "port + int j \<in> ds_Port ` set dss" if "j < Suc k" for j
    proof (cases j)
      case 0
      with True show ?thesis by (simp add: usedPorts_datastores_iff)
    next
      case (Suc j')
      with that k(2) have "port + 1 + int j' \<in> ds_Port ` set dss" by simp
      with Suc show ?thesis by (simp add: add.assoc)
    qed
    moreover have "port + int (Suc k) \<notin> ds_Port ` set dss"
      using k(3) by (simp add: add.assoc)
    ultimately show ?thesis by blast
  qed
qed

lemma runtime_port_loop_probe:
  "\<exists>k::nat. runtime_port_loop rts port = port + 1000 * int k \<and>
     (\<forall>j<k. port + 1000 * int j \<in> rt_Port ` set rts) \<and>
     port + 1000 * int k \<notin> rt_Port ` set rts"
proof (induction rts port rule: runtime_port_loop.induct)
  case (1 rts port)
  show ?case
  proof (cases "usedPorts_runtimes rts port")
    case False
    then have "runtime_port_loop rts port = port + 1000 * int 0" 
      and "port + 1000 * int 0 \<notin> rt_Port ` set rts"
      by (simp_all add: runtime_port_loop.simps [of rts port] usedPorts_runtimes_iff)
    then show ?thesis by blast
  next
    case True
    from "1.IH" [OF True] obtain k :: nat where
      k: "runtime_port_loop rts (port + 1000) = port + 1000 + 1000 * int k"
        "\<forall>j<k. port + 1000 + 1000 * int j \<in> rt_Port ` set rts"
        "port + 1000 + 1000 * int k \<notin> rt_Port ` set rts"
      by blast
    have "runtime_port_loop rts port = port + 1000 * int (Suc k)"
      using True k(1) by (simp add: runtime_port_loop.simps [of rts port])
    moreover have "port + 1000 * int j \<in> rt_Port ` set rts" if "j < Suc k" for j
    proof (cases j)
      case 0
      with True show ?thesis by (simp add: usedPorts_runtimes_iff)
    next
      case (Suc j')
      with that k(2) have "port + 1000 + 1000 * int j' \<in> rt_Port ` set rts" by simp
      with Suc show ?thesis by (simp add: algebra_simps)
    qed
    moreover have "port + 1000 * int (Suc k) \<notin> rt_Port ` set rts"
      using k(3) by (simp add: algebra_simps)
    ultimately show ?thesis by blast
  qed
qed

lemma runtime_name_loop_result:
  "(name \<notin> rt_Name ` set rts \<and> runtime_name_loop rts baseName counter name = name) \<or>
   (name \<in> rt_Name ` set rts \<and>
    (\<exists>k. counter < k \<and> runtime_name_loop rts baseName counter name = suffixed baseName k \<and>
       (\<forall>j. counter < j \<and> j < k \<longrightarrow> suffixed baseName j \<in> rt_Name ` set rts) \<and>
       suffixed baseName k \<notin> rt_Name ` set rts))"
proof (induction rts baseName counter name rule: runtime_name_loop.induct)
  case (1 rts baseName counter name)
  let ?N = "rt_Name ` set rts"
  have ex: "list_ex (\<lambda>rt. rt_Name rt = name) rts \<longleftrightarrow> name \<in> ?N"
    by (auto simp: list_ex_iff)
  show ?case
  proof (cases "name \<in> ?N")
    case False
    then show ?thesis
      by (simp add: runtime_name_loop.simps [of rts baseName counter name] ex)
  next
    case True
    then have unfold: "runtime_name_loop rts baseName counter name
        = runtime_name_loop rts baseName (counter + 1) (suffixed baseName (counter + 1))"
      by (simp add: runtime_name_loop.simps [of rts baseName counter name] ex)
    from True ex have "list_ex (\<lambda>rt. rt_Name rt = name) rts" by simp
    note IH = "1.IH" [OF this]
    show ?thesis
    proof (cases "suffixed baseName (counter + 1) \<in> ?N")
      case False
      with IH have "runtime_name_loop rts baseName counter name = suffixed baseName (counter + 1)"
        using unfold by simp
      moreover have "\<forall>j. counter < j \<and> j < counter + 1 \<longrightarrow> suffixed baseName j \<in> ?N"
        by auto
      ultimately show ?thesis using True False
        by (intro disjI2 conjI exI [of _ "counter + 1"]) simp_all
    next
      case next_used: True
      with IH obtain k where k: "counter + 1 < k"
        "runtime_name_loop rts baseName (counter + 1) (suffixed baseName (counter + 1))
           = suffixed baseName k"
        "\<forall>j. counter + 1 < j \<and> j < k \<longrightarrow> suffixed baseName j \<in> ?N"
        "suffixed baseName k \<notin> ?N"
        by blast
      have "suffixed baseName j \<in> ?N" if "counter < j" "j < k" for j
      proof (cases "j = counter + 1")
        case True
        with next_used show ?thesis by simp
      next
        case False
        with that have "counter + 1 < j" by simp
        with that k(3) show ?thesis by simp
      qed
      then have "\<forall>j. counter < j \<and> j < k \<longrightarrow> suffixed baseName j \<in> ?N" by blast
      moreover have "counter < k" using k(1) by simp
      ultimately show ?thesis using True k(2,4) unfold
        by (intro disjI2 conjI exI [of _ k]) simp_all
    qed
  qed
qed

text \<open>A Project used to run the add path: Redis on 6379, two Go runtimes on 8080 and 9080.\<close>

definition demo_project :: Project where
  "demo_project =
     Project_zero
       \<lparr>p_Name := ''demo'', p_OutputDir := ''.'',
        p_Datastores :=
          [Datastore_zero
             \<lparr>ds_Type := ''redis'', ds_Name := ''redis'', ds_Tag := ''7-alpine'',
              ds_Port := 6379, ds_InternalPort := 6379\<rparr>],
        p_Runtimes :=
          [Runtime_zero
             \<lparr>rt_Type := ''go'', rt_Name := ''go-app'', rt_Framework := ''stdlib'',
              rt_Port := 8080, rt_InternalPort := 8080, rt_BuildContext := ''go-app'',
              rt_Dockerfile := ''Dockerfile'', rt_DependsOn := [''redis'']\<rparr>,
           Runtime_zero
             \<lparr>rt_Type := ''go'', rt_Name := ''go-app-2'', rt_Framework := ''gin'',
              rt_Port := 9080, rt_InternalPort := 8080, rt_BuildContext := ''go-app-2'',
              rt_Dockerfile := ''Dockerfile'', rt_DependsOn := [''redis'']\<rparr>]\<rparr>"

lemmas demo_simps =
  demo_project_def Project_zero_def Datastore_zero_def Runtime_zero_def
  GetDatastoreInfo_def GetRuntimeInfo_def getDefaultTag_def kind_defs Let_def

text \<open>
  C5. On the add path a new datastore gets the first port of the sequence default,
  default + 1, default + 2, ... that no existing datastore uses, and a new runtime the
  first port of default, default + 1000, default + 2000, ... that no existing runtime
  uses. In particular the new datastore's port differs from every existing datastore's
  port, also when the kind's default port is taken.
\<close>

theorem add_path_port_probe:
  "(\<not> list_ex (\<lambda>ds. ds_Type ds = dsType) (p_Datastores project) \<longrightarrow>
      (\<exists>ds k. p_Datastores (ao_project (addDatastore sar project dsType))
                 = p_Datastores project @ [ds] \<and>
         ds_Port ds = di_DefaultPort (GetDatastoreInfo dsType) + int k \<and>
         (\<forall>j<k. di_DefaultPort (GetDatastoreInfo dsType) + int j
                   \<in> ds_Port ` set (p_Datastores project)) \<and>
         ds_Port ds \<notin> ds_Port ` set (p_Datastores project))) \<and>
   (ri_Frameworks (GetRuntimeInfo rtType) \<noteq> [] \<longrightarrow>
      (\<exists>rt k. p_Runtimes (ao_project (addRuntime sar prompt project rtType))
                 = p_Runtimes project @ [rt] \<and>
         rt_Port rt = ri_DefaultPort (GetRuntimeInfo rtType) + 1000 * int k \<and>
         (\<forall>j<k. ri_DefaultPort (GetRuntimeInfo rtType) + 1000 * int j
                   \<in> rt_Port ` set (p_Runtimes project)) \<and>
         rt_Port rt \<notin> rt_Port ` set (p_Runtimes project)))"
proof (intro conjI impI)
  assume fresh: "\<not> list_ex (\<lambda>ds. ds_Type ds = dsType) (p_Datastores project)"
  let ?d = "di_DefaultPort (GetDatastoreInfo dsType)"
  obtain k :: nat where k:
    "datastore_port_loop (p_Datastores project) ?d = ?d + int k"
    "\<forall>j<k. ?d + int j \<in> ds_Port ` set (p_Datastores project)"
    "?d + int k \<notin> ds_Port ` set (p_Datastores project)"
    using datastore_port_loop_probe [of "p_Datastores project" ?d] by blast
  let ?ds = "Datastore_zero
      \<lparr>ds_Type := dsType, ds_Name := dsType, ds_Port := ?d + int k,
       ds_InternalPort := ?d, ds_Tag := getDefaultTag dsType\<rparr>"
  have "p_Datastores (ao_project (addDatastore sar project dsType)) = p_Datastores project @ [?ds]"
    using fresh k(1) by (simp add: addDatastore_def Let_def)
  moreover have "ds_Port ?ds = ?d + int k" by simp
  ultimately show "\<exists>ds k. p_Datastores (ao_project (addDatastore sar project dsType))
                 = p_Datastores project @ [ds] \<and>
         ds_Port ds = ?d + int k \<and>
         (\<forall>j<k. ?d + int j \<in> ds_Port ` set (p_Datastores project)) \<and>
         ds_Port ds \<notin> ds_Port ` set (p_Datastores project)"
    using k(2,3) by (intro exI [of _ ?ds] exI [of _ k]) simp
next
  assume known: "ri_Frameworks (GetRuntimeInfo rtType) \<noteq> []"
  let ?d = "ri_DefaultPort (GetRuntimeInfo rtType)"
  obtain k :: nat where k:
    "runtime_port_loop (p_Runtimes project) ?d = ?d + 1000 * int k"
    "\<forall>j<k. ?d + 1000 * int j \<in> rt_Port ` set (p_Runtimes project)"
    "?d + 1000 * int k \<notin> rt_Port ` set (p_Runtimes project)"
    using runtime_port_loop_probe [of "p_Runtimes project" ?d] by blast
  from known obtain f0 fs where fw: "ri_Frameworks (GetRuntimeInfo rtType) = f0 # fs"
    by (cases "ri_Frameworks (GetRuntimeInfo rtType)") simp_all
  obtain rt where rt:
    "p_Runtimes (ao_project (addRuntime sar prompt project rtType)) = p_Runtimes project @ [rt]"
    "rt_Port rt = runtime_port_loop (p_Runtimes project) ?d"
    by (simp add: addRuntime_def Let_def fw)
  with k show "\<exists>rt k. p_Runtimes (ao_project (addRuntime sar prompt project rtType))
                 = p_Runtimes project @ [rt] \<and>
         rt_Port rt = ?d + 1000 * int k \<and>
         (\<forall>j<k. ?d + 1000 * int j \<in> rt_Port ` set (p_Runtimes project)) \<and>
         rt_Port rt \<notin> rt_Port ` set (p_Runtimes project)"
    by (intro exI [of _ rt] exI [of _ k]) simp
qed

theorem add_path_port_probe_witness:
  "\<not> list_ex (\<lambda>ds. ds_Type ds = ''redis-stack'') (p_Datastores demo_project) \<and>
   ri_Frameworks (GetRuntimeInfo ''go'') \<noteq> [] \<and>
   ds_Port (last (p_Datastores (ao_project
      (addDatastore (\<lambda>p. None) demo_project ''redis-stack'')))) = 6380 \<and>
   ds_Port (last (p_Datastores (ao_project
      (addDatastore (\<lambda>p. None) demo_project ''redis-stack''))))
     \<notin> ds_Port ` set (p_Datastores demo_project) \<and>
   rt_Port (last (p_Runtimes (ao_project
      (addRuntime (\<lambda>p. None) (\<lambda>fs. ''gin'') demo_project ''go'')))) = 10080"
proof -
  have h1: "\<not> list_ex (\<lambda>ds. ds_Type ds = ''redis-stack'') (p_Datastores demo_project)"
    by (simp add: demo_simps)
  have h2: "ri_Frameworks (GetRuntimeInfo ''go'') \<noteq> []"
    by (simp add: demo_simps)
  from h1 h2
    add_path_port_probe [where dsType = "''redis-stack''" and project = demo_project
      and sar = "\<lambda>p. None" and rtType = "''go''" and prompt = "\<lambda>fs. ''gin''"]
  obtain ds where
    "p_Datastores (ao_project (addDatastore (\<lambda>p. None) demo_project ''redis-stack''))
       = p_Datastores demo_project @ [ds]"
    "ds_Port ds \<notin> ds_Port ` set (p_Datastores demo_project)"
    by blast
  then have fresh: "ds_Port (last (p_Datastores (ao_project
      (addDatastore (\<lambda>p. None) demo_project ''redis-stack''))))
     \<notin> ds_Port ` set (p_Datastores demo_project)"
    by simp
  have v1: "ds_Port (last (p_Datastores (ao_project
      (addDatastore (\<lambda>p. None) demo_project ''redis-stack'')))) = 6380"
    by (simp add: addDatastore_def demo_simps datastore_port_loop.simps
        usedPorts_datastores_def)
  have v2: "rt_Port (last (p_Runtimes (ao_project
      (addRuntime (\<lambda>p. None) (\<lambda>fs. ''gin'') demo_project ''go'')))) = 10080"
    by (simp add: addRuntime_def demo_simps runtime_port_loop.simps usedPorts_runtimes_def)
  show ?thesis using h1 h2 v1 fresh v2 by blast
qed

text \<open>
  C7. Adding a datastore whose kind the Project already has fails with an error, leaves
  the Project as it was and never reaches \<open>saveAndRegenerate\<close>.
\<close>

theorem addDatastore_duplicate_rejected:
  assumes "ds \<in> set (p_Datastores project)" and "ds_Type ds = dsType"
  shows "ao_err (addDatastore sar project dsType) = Some (AlreadyInConfiguration dsType) \<and>
         ao_project (addDatastore sar project dsType) = project \<and>
         p_Datastores (ao_project (addDatastore sar project dsType)) = p_Datastores project \<and>
         p_Runtimes (ao_project (addDatastore sar project dsType)) = p_Runtimes project \<and>
         ao_saved (addDatastore sar project dsType) = []"
proof -
  from assms have "list_ex (\<lambda>ds. ds_Type ds = dsType) (p_Datastores project)"
    by (auto simp: list_ex_iff)
  then show ?thesis by (simp add: addDatastore_def)
qed

theorem addDatastore_duplicate_rejected_witness:
  "hd (p_Datastores demo_project) \<in> set (p_Datastores demo_project) \<and>
   ds_Type (hd (p_Datastores demo_project)) = ''redis'' \<and>
   ao_err (addDatastore (\<lambda>p. None) demo_project ''redis'')
     = Some (AlreadyInConfiguration ''redis'') \<and>
   ao_project (addDatastore (\<lambda>p. None) demo_project ''redis'') = demo_project \<and>
   ao_saved (addDatastore (\<lambda>p. None) demo_project ''redis'') = []"
proof -
  have h1: "hd (p_Datastores demo_project) \<in> set (p_Datastores demo_project)"
    and h2: "ds_Type (hd (p_Datastores demo_project)) = ''redis''"
    by (simp_all add: demo_simps)
  from addDatastore_duplicate_rejected [OF h1 h2, of "\<lambda>p. None"] h1 h2
  show ?thesis by blast
qed

text \<open>
  C9. Adding a runtime of a catalog kind appends an instance whose name is
  kind + "-app" when no existing runtime has that name, and otherwise
  kind + "-app-" + k for the smallest k \<ge> 2 whose name no existing runtime has; the new
  name differs from every existing runtime name.
\<close>

theorem addRuntime_name_fresh:
  assumes "ri_Frameworks (GetRuntimeInfo rtType) \<noteq> []"
  shows "\<exists>rt. p_Runtimes (ao_project (addRuntime sar prompt project rtType))
                 = p_Runtimes project @ [rt] \<and>
           rt_Name rt \<notin> rt_Name ` set (p_Runtimes project) \<and>
           (if rtType @ ''-app'' \<notin> rt_Name ` set (p_Runtimes project)
            then rt_Name rt = rtType @ ''-app''
            else \<exists>k\<ge>2. rt_Name rt = rtType @ ''-app-'' @ fmt_d k \<and>
                   (\<forall>j. 2 \<le> j \<and> j < k \<longrightarrow>
                      rtType @ ''-app-'' @ fmt_d j \<in> rt_Name ` set (p_Runtimes project)))"
proof -
  let ?N = "rt_Name ` set (p_Runtimes project)"
  let ?base = "rtType @ ''-app''"
  let ?name = "runtime_name_loop (p_Runtimes project) ?base 1 ?base"
  from assms obtain f0 fs where fw: "ri_Frameworks (GetRuntimeInfo rtType) = f0 # fs"
    by (cases "ri_Frameworks (GetRuntimeInfo rtType)") simp_all
  obtain rt where rt:
    "p_Runtimes (ao_project (addRuntime sar prompt project rtType)) = p_Runtimes project @ [rt]"
    "rt_Name rt = ?name"
    by (simp add: addRuntime_def Let_def fw)
  have suff: "suffixed ?base k = rtType @ ''-app-'' @ fmt_d k" for k
    by (simp add: suffixed_def)
  have "?name \<notin> ?N \<and>
      (if ?base \<notin> ?N then ?name = ?base
       else \<exists>k\<ge>2. ?name = rtType @ ''-app-'' @ fmt_d k \<and>
              (\<forall>j. 2 \<le> j \<and> j < k \<longrightarrow> rtType @ ''-app-'' @ fmt_d j \<in> ?N))"
  proof (cases "?base \<in> ?N")
    case False
    with runtime_name_loop_result [of ?base "p_Runtimes project" ?base 1]
    show ?thesis by simp
  next
    case True
    with runtime_name_loop_result [of ?base "p_Runtimes project" ?base 1]
    obtain k where k: "1 < k" "?name = suffixed ?base k"
      "\<forall>j. 1 < j \<and> j < k \<longrightarrow> suffixed ?base j \<in> ?N" "suffixed ?base k \<notin> ?N"
      by blast
    from k(1) have "2 \<le> k" by simp
    have "rtType @ ''-app-'' @ fmt_d j \<in> ?N" if "2 \<le> j" "j < k" for j
    proof -
      from that have "1 < j \<and> j < k" by simp
      with k(3) have "suffixed ?base j \<in> ?N" by blast
      then show ?thesis by (simp only: suff)
    qed
    then have "\<forall>j. 2 \<le> j \<and> j < k \<longrightarrow> rtType @ ''-app-'' @ fmt_d j \<in> ?N"
      by blast
    moreover note \<open>2 \<le> k\<close>
    ultimately have "\<exists>k\<ge>2. ?name = rtType @ ''-app-'' @ fmt_d k \<and>
              (\<forall>j. 2 \<le> j \<and> j < k \<longrightarrow> rtType @ ''-app-'' @ fmt_d j \<in> ?N)"
      using k(2) by (intro exI [of _ k]) (simp add: suff)
    with True k(2,4) show ?thesis by simp
  qed
  then have "rt_Name rt \<notin> ?N \<and>
      (if ?base \<notin> ?N then rt_Name rt = ?base
       else \<exists>k\<ge>2. rt_Name rt = rtType @ ''-app-'' @ fmt_d k \<and>
              (\<forall>j. 2 \<le> j \<and> j < k \<longrightarrow> rtType @ ''-app-'' @ fmt_d j \<in> ?N))"
    unfolding rt(2) .
  with rt(1) show ?thesis by blast
qed

theorem addRuntime_name_fresh_witness:
  "ri_Frameworks (GetRuntimeInfo ''go'') \<noteq> [] \<and>
   rt_Name (last (p_Runtimes (ao_project
      (addRuntime (\<lambda>p. None) (\<lambda>fs. ''gin'') demo_project ''go'')))) = ''go-app-3'' \<and>
   rt_Name (last (p_Runtimes (ao_project
      (addRuntime (\<lambda>p. None) (\<lambda>fs. ''gin'') demo_project ''go''))))
     \<notin> rt_Name ` set (p_Runtimes demo_project)"
proof -
  have h: "ri_Frameworks (GetRuntimeInfo ''go'') \<noteq> []"
    by (simp add: demo_simps)
  from addRuntime_name_fresh [OF h, of "\<lambda>p. None" "\<lambda>fs. ''gin''" demo_project]
  obtain rt where
    "p_Runtimes (ao_project (addRuntime (\<lambda>p. None) (\<lambda>fs. ''gin'') demo_project ''go''))
       = p_Runtimes demo_project @ [rt]"
    "rt_Name rt \<notin> rt_Name ` set (p_Runtimes demo_project)"
    by blast
  then have fresh: "rt_Name (last (p_Runtimes (ao_project
      (addRuntime (\<lambda>p. None) (\<lambda>fs. ''gin'') demo_project ''go''))))
     \<notin> rt_Name ` set (p_Runtimes demo_project)"
    by simp
  have v: "rt_Name (last (p_Runtimes (ao_project
      (addRuntime (\<lambda>p. None) (\<lambda>fs. ''gin'') demo_project ''go'')))) = ''go-app-3''"
    by (simp add: addRuntime_def demo_simps runtime_name_loop.simps suffixed_def fmt_d_def
        dec_nat.simps digits_def)
  show ?thesis using h v fresh by blast
qed

section \<open>The generator (generator.go)\<close>

text \<open>
  Three things the generator calls are outside the repository's files at hand: YAML
  serialization (\<open>yaml.Marshal\<close>), the Dockerfile templates of package \<open>templates\<close>, one
  function per runtime kind taking the framework, and \<open>templates.GitIgnore\<close>. They are
  the fields of a record the generator takes as a parameter.
\<close>

record collaborators =
  yaml_Marshal :: "ComposeFile \<Rightarrow> error + string"
  GoDockerfile :: "string \<Rightarrow> string"
  NodeDockerfile :: "string \<Rightarrow> string"
  PythonDockerfile :: "string \<Rightarrow> string"
  JavaDockerfile :: "string \<Rightarrow> string"
  RustDockerfile :: "string \<Rightarrow> string"
  CSharpDockerfile :: "string \<Rightarrow> string"
  GitIgnore :: string

record Generator =
  g_project :: Project
  g_compose :: ComposeFile
  g_envVars :: "EnvVar list"
  g_dockerfiles :: "string \<rightharpoonup> string"

record GeneratedOutput =
  go_ComposeYAML :: string
  go_EnvFile :: string
  go_EnvExampleFile :: string
  go_GitIgnore :: string
  go_Dockerfiles :: "string \<rightharpoonup> string"

text \<open>\<open>New\<close> makes the maps of services and of Dockerfiles and leaves the other two nil.\<close>

definition New :: "Project \<Rightarrow> Generator" where
  "New project =
     \<lparr>g_project = project,
      g_compose = \<lparr>cf_Version = [], cf_Services = Map.empty, cf_Volumes = None,
                   cf_Networks = None\<rparr>,
      g_envVars = [],
      g_dockerfiles = Map.empty\<rparr>"

definition EnvVar_of :: "string \<Rightarrow> string \<Rightarrow> string \<Rightarrow> bool \<Rightarrow> EnvVar" where
  "EnvVar_of k v d s = \<lparr>ev_Key = k, ev_Value = v, ev_Description = d, ev_Secret = s\<rparr>"

definition health :: "string list \<Rightarrow> string \<Rightarrow> ComposeHealth" where
  "health test startPeriod =
     \<lparr>ch_Test = test, ch_Interval = ''10s'', ch_Timeout = ''5s'', ch_Retries = 5,
      ch_StartPeriod = startPeriod\<rparr>"

subsection \<open>The cases of the switch in \<open>generateDatastoreService\<close>\<close>

definition postgres_service :: "Generator \<Rightarrow> Datastore \<Rightarrow> string \<Rightarrow> string \<Rightarrow> ComposeService" where
  "postgres_service g ds network volumeName =
     ComposeService_zero
       \<lparr>cs_Image := ''postgres:'' @ ds_Tag ds,
        cs_ContainerName := p_Name (g_project g) @ ''-'' @ ds_Name ds,
        cs_Ports := [fmt_d (ds_Port ds) @ '':5432''],
        cs_Volumes := [volumeName @ '':/var/lib/postgresql/data''],
        cs_Environment :=
          [''POSTGRES_USER'' \<mapsto> ''${POSTGRES_USER:-postgres}'',
           ''POSTGRES_PASSWORD'' \<mapsto> ''${POSTGRES_PASSWORD}'',
           ''POSTGRES_DB'' \<mapsto> ''${POSTGRES_DB:-'' @ p_Name (g_project g) @ ''}''],
        cs_Networks := [network],
        cs_Restart := ''unless-stopped'',
        cs_HealthCheck := Some (health [''CMD-SHELL'', ''pg_isready -U postgres''] ''10s'')\<rparr>"

definition postgres_envs :: "Generator \<Rightarrow> Datastore \<Rightarrow> string \<Rightarrow> EnvVar list" where
  "postgres_envs g ds password =
     [EnvVar_of ''POSTGRES_USER'' ''postgres'' ''PostgreSQL username'' False,
      EnvVar_of ''POSTGRES_PASSWORD'' password ''PostgreSQL password'' True,
      EnvVar_of ''POSTGRES_DB'' (p_Name (g_project g)) ''PostgreSQL database name'' False,
      EnvVar_of ''DATABASE_URL''
        (''postgresql://postgres:'' @ password @ ''@'' @ ds_Name ds @ '':5432/''
           @ p_Name (g_project g))
        ''PostgreSQL connection string'' True]"

definition mysql_service :: "Generator \<Rightarrow> Datastore \<Rightarrow> string \<Rightarrow> string \<Rightarrow> ComposeService" where
  "mysql_service g ds network volumeName =
     ComposeService_zero
       \<lparr>cs_Image := ''mysql:'' @ ds_Tag ds,
        cs_ContainerName := p_Name (g_project g) @ ''-'' @ ds_Name ds,
        cs_Ports := [fmt_d (ds_Port ds) @ '':3306''],
        cs_Volumes := [volumeName @ '':/var/lib/mysql''],
        cs_Environment :=
          [''MYSQL_ROOT_PASSWORD'' \<mapsto> ''${MYSQL_ROOT_PASSWORD}'',
           ''MYSQL_DATABASE'' \<mapsto> ''${MYSQL_DATABASE:-'' @ p_Name (g_project g) @ ''}'',
           ''MYSQL_USER'' \<mapsto> ''${MYSQL_USER:-app}'',
           ''MYSQL_PASSWORD'' \<mapsto> ''${MYSQL_PASSWORD}''],
        cs_Networks := [network],
        cs_Restart := ''unless-stopped'',
        cs_HealthCheck :=
          Some (health [''CMD'', ''mysqladmin'', ''ping'', ''-h'', ''localhost''] ''30s'')\<rparr>"

definition mysql_envs :: "Generator \<Rightarrow> Datastore \<Rightarrow> string \<Rightarrow> string \<Rightarrow> EnvVar list" where
  "mysql_envs g ds password rootPassword =
     [EnvVar_of ''MYSQL_ROOT_PASSWORD'' rootPassword ''MySQL root password'' True,
      EnvVar_of ''MYSQL_DATABASE'' (p_Name (g_project g)) ''MySQL database name'' False,
      EnvVar_of ''MYSQL_USER'' ''app'' ''MySQL application user'' False,
      EnvVar_of ''MYSQL_PASSWORD'' password ''MySQL application password'' True,
      EnvVar_of ''MYSQL_URL''
        (''mysql://app:'' @ password @ ''@'' @ ds_Name ds @ '':3306/'' @ p_Name (g_project g))
        ''MySQL connection string'' True]"

definition mssql_service :: "Generator \<Rightarrow> Datastore \<Rightarrow> string \<Rightarrow> string \<Rightarrow> ComposeService" where
  "mssql_service g ds network volumeName =
     ComposeService_zero
       \<lparr>cs_Image := ''mcr.microsoft.com/mssql/server:'' @ ds_Tag ds,
        cs_ContainerName := p_Name (g_project g) @ ''-'' @ ds_Name ds,
        cs_Ports := [fmt_d (ds_Port ds) @ '':1433''],
        cs_Volumes := [volumeName @ '':/var/opt/mssql''],
        cs_Environment :=
          [''ACCEPT_EULA'' \<mapsto> ''Y'',
           ''MSSQL_SA_PASSWORD'' \<mapsto> ''${MSSQL_SA_PASSWORD}'',
           ''MSSQL_PID'' \<mapsto> ''Developer''],
        cs_Networks := [network],
        cs_Restart := ''unless-stopped'',
        cs_HealthCheck :=
          Some (health
            [''CMD-SHELL'',
             ''/opt/mssql-tools/bin/sqlcmd -S localhost -U sa -P '' @ [CHR 0x22]
               @ ''$MSSQL_SA_PASSWORD'' @ [CHR 0x22] @ '' -Q '' @ [CHR 0x22] @ ''SELECT 1''
               @ [CHR 0x22] @ '' || exit 1'']
            ''30s'')\<rparr>"

definition mssql_envs :: "Datastore \<Rightarrow> string \<Rightarrow> EnvVar list" where
  "mssql_envs ds strongPassword =
     [EnvVar_of ''MSSQL_SA_PASSWORD'' strongPassword
        ''SQL Server SA password (Developer Edition)'' True,
      EnvVar_of ''MSSQL_URL''
        (''Server='' @ ds_Name ds @ '',1433;Database=master;User Id=sa;Password=''
           @ strongPassword @ '';TrustServerCertificate=True'')
        ''SQL Server connection string'' True]"

definition neo4j_service :: "Generator \<Rightarrow> Datastore \<Rightarrow> string \<Rightarrow> string \<Rightarrow> ComposeService" where
  "neo4j_service g ds network volumeName =
     ComposeService_zero
       \<lparr>cs_Image := ''neo4j:'' @ ds_Tag ds @ ''-community'',
        cs_ContainerName := p_Name (g_project g) @ ''-'' @ ds_Name ds,
        cs_Ports := [fmt_d (ds_Port ds) @ '':7474'', fmt_d (wrap64 (ds_Port ds + 213)) @ '':7687''],
        cs_Volumes := [volumeName @ '':/data'', ds_Name ds @ ''-logs:/logs''],
        cs_Environment := [''NEO4J_AUTH'' \<mapsto> ''${NEO4J_AUTH:-neo4j/password}''],
        cs_Networks := [network],
        cs_Restart := ''unless-stopped'',
        cs_HealthCheck :=
          Some (health
            [''CMD-SHELL'',
             ''wget --no-verbose --tries=1 --spider http://localhost:7474 || exit 1'']
            ''30s'')\<rparr>"

definition neo4j_envs :: "Datastore \<Rightarrow> string \<Rightarrow> EnvVar list" where
  "neo4j_envs ds password =
     [EnvVar_of ''NEO4J_AUTH'' (''neo4j/'' @ password)
        ''Neo4j authentication (Community Edition)'' True,
      EnvVar_of ''NEO4J_URI'' (''bolt://'' @ ds_Name ds @ '':7687'')
        ''Neo4j Bolt connection URI'' False]"

definition redis_service :: "Generator \<Rightarrow> Datastore \<Rightarrow> string \<Rightarrow> string \<Rightarrow> ComposeService" where
  "redis_service g ds network volumeName =
     ComposeService_zero
       \<lparr>cs_Image := ''redis:'' @ ds_Tag ds,
        cs_ContainerName := p_Name (g_project g) @ ''-'' @ ds_Name ds,
        cs_Ports := [fmt_d (ds_Port ds) @ '':6379''],
        cs_Volumes := [volumeName @ '':/data''],
        cs_Command := ''redis-server --appendonly yes --requirepass ${REDIS_PASSWORD}'',
        cs_Networks := [network],
        cs_Restart := ''unless-stopped'',
        cs_HealthCheck :=
          Some (health [''CMD'', ''redis-cli'', ''--pass'', ''${REDIS_PASSWORD}'', ''ping''] ''5s'')\<rparr>"

definition redis_envs :: "Datastore \<Rightarrow> string \<Rightarrow> EnvVar list" where
  "redis_envs ds password =
     [EnvVar_of ''REDIS_PASSWORD'' password ''Redis password'' True,
      EnvVar_of ''REDIS_URL'' (''redis://:'' @ password @ ''@'' @ ds_Name ds @ '':6379'')
        ''Redis connection string'' True]"

definition redis_stack_service :: "Generator \<Rightarrow> Datastore \<Rightarrow> string \<Rightarrow> string \<Rightarrow> ComposeService" where
  "redis_stack_service g ds network volumeName =
     ComposeService_zero
       \<lparr>cs_Image := ''redis/redis-stack:'' @ ds_Tag ds,
        cs_ContainerName := p_Name (g_project g) @ ''-'' @ ds_Name ds,
        cs_Ports := [fmt_d (ds_Port ds) @ '':6379'', fmt_d (wrap64 (ds_Port ds + 1622)) @ '':8001''],
        cs_Volumes := [volumeName @ '':/data''],
        cs_Environment := [''REDIS_ARGS'' \<mapsto> ''--requirepass ${REDIS_STACK_PASSWORD}''],
        cs_Networks := [network],
        cs_Restart := ''unless-stopped'',
        cs_HealthCheck :=
          Some (health [''CMD'', ''redis-cli'', ''--pass'', ''${REDIS_STACK_PASSWORD}'', ''ping'']
            ''5s'')\<rparr>"

definition redis_stack_envs :: "Datastore \<Rightarrow> string \<Rightarrow> EnvVar list" where
  "redis_stack_envs ds password =
     [EnvVar_of ''REDIS_STACK_PASSWORD'' password ''Redis Stack password (Community)'' True,
      EnvVar_of ''REDIS_STACK_URL'' (''redis://:'' @ password @ ''@'' @ ds_Name ds @ '':6379'')
        ''Redis Stack connection string'' True]"


text \<open>
  \<open>generateDatastoreService\<close> reads one password before the switch; the MySQL case reads
  a second one and the SQL Server case a strong one. The Neo4j case also stores the log
  volume in the generator's compose file, which panics while that map is nil. The error
  it returns is always nil; a value \<open>Inl\<close> is a panic or the fatal error of a failed read.
  A kind outside the six cases leaves the zero service and no variables.
\<close>

definition add_volume :: "string \<Rightarrow> Generator \<Rightarrow> error + Generator" where
  "add_volume name g =
     (case cf_Volumes (g_compose g) of
        None \<Rightarrow> Inl PanicNilMap
      | Some volumes \<Rightarrow>
          Inr (g\<lparr>g_compose := (g_compose g)\<lparr>cf_Volumes := Some (volumes(name \<mapsto> Map.empty))\<rparr>\<rparr>))"

definition generateDatastoreService ::
  "Generator \<Rightarrow> Datastore \<Rightarrow> string \<Rightarrow> rand_source
     \<Rightarrow> error + (ComposeService \<times> EnvVar list \<times> error option \<times> Generator \<times> rand_source)" where
  "generateDatastoreService g ds network rnd =
     (let volumeName = ds_Name ds @ ''-data'' in
      case generatePassword 16 rnd of
        Inl fatal \<Rightarrow> Inl fatal
      | Inr (password, rnd1) \<Rightarrow>
          if ds_Type ds = DatastorePostgres then
            Inr (postgres_service g ds network volumeName, postgres_envs g ds password,
                 None, g, rnd1)
          else if ds_Type ds = DatastoreMySQL then
            (case generatePassword 16 rnd1 of
               Inl fatal \<Rightarrow> Inl fatal
             | Inr (rootPassword, rnd2) \<Rightarrow>
                 Inr (mysql_service g ds network volumeName,
                      mysql_envs g ds password rootPassword, None, g, rnd2))
          else if ds_Type ds = DatastoreMSSQL then
            (case generateStrongPassword 16 rnd1 of
               Inl fatal \<Rightarrow> Inl fatal
             | Inr (strongPassword, rnd2) \<Rightarrow>
                 Inr (mssql_service g ds network volumeName, mssql_envs ds strongPassword,
                      None, g, rnd2))
          else if ds_Type ds = DatastoreNeo4j then
            (case add_volume (ds_Name ds @ ''-logs'') g of
               Inl panic \<Rightarrow> Inl panic
             | Inr g1 \<Rightarrow>
                 Inr (neo4j_service g ds network volumeName, neo4j_envs ds password, None,
                      g1, rnd1))
          else if ds_Type ds = DatastoreRedis then
            Inr (redis_service g ds network volumeName, redis_envs ds password, None, g, rnd1)
          else if ds_Type ds = DatastoreRedisStack then
            Inr (redis_stack_service g ds network volumeName, redis_stack_envs ds password,
                 None, g, rnd1)
          else Inr (ComposeService_zero, [], None, g, rnd1))"

definition port_envs :: "string \<Rightarrow> string \<Rightarrow> Runtime \<Rightarrow> EnvVar list" where
  "port_envs key description rt =
     [EnvVar_of key ''development'' description False,
      EnvVar_of ''PORT'' (fmt_d (rt_InternalPort rt)) ''Application port'' False]"

definition generateRuntimeService ::
  "collaborators \<Rightarrow> Generator \<Rightarrow> Runtime \<Rightarrow> string
     \<Rightarrow> ComposeService \<times> EnvVar list \<times> string \<times> error option" where
  "generateRuntimeService X g rt network =
     (let service = ComposeService_zero
            \<lparr>cs_Build := Some \<lparr>cb_Context = rt_BuildContext rt,
                               cb_Dockerfile = rt_Dockerfile rt\<rparr>,
             cs_ContainerName := p_Name (g_project g) @ ''-'' @ rt_Name rt,
             cs_Ports := [fmt_d (rt_Port rt) @ '':'' @ fmt_d (rt_InternalPort rt)],
             cs_Volumes := [''./'' @ rt_BuildContext rt @ '':/app''],
             cs_EnvFile := [''.env''],
             cs_Networks := [network],
             cs_Restart := ''unless-stopped'',
             cs_DependsOn := rt_DependsOn rt\<rparr>
      in if rt_Type rt = RuntimeGo then
           (service, port_envs ''GO_ENV'' ''Go environment'' rt,
            GoDockerfile X (rt_Framework rt), None)
         else if rt_Type rt = RuntimeNode then
           (service, port_envs ''NODE_ENV'' ''Node environment'' rt,
            NodeDockerfile X (rt_Framework rt), None)
         else if rt_Type rt = RuntimePython then
           (service, port_envs ''PYTHON_ENV'' ''Python environment'' rt,
            PythonDockerfile X (rt_Framework rt), None)
         else if rt_Type rt = RuntimeJava then
           (service, port_envs ''JAVA_ENV'' ''Java environment'' rt,
            JavaDockerfile X (rt_Framework rt), None)
         else if rt_Type rt = RuntimeRust then
           (service, port_envs ''RUST_ENV'' ''Rust environment'' rt,
            RustDockerfile X (rt_Framework rt), None)
         else if rt_Type rt = RuntimeCSharp then
           (service,
            [EnvVar_of ''ASPNETCORE_ENVIRONMENT'' ''Development'' ''.NET environment'' False,
             EnvVar_of ''ASPNETCORE_URLS'' (''http://+:'' @ fmt_d (rt_InternalPort rt))
               ''ASP.NET Core URLs'' False],
            CSharpDockerfile X (rt_Framework rt), None)
         else (service, [], [], None))"

subsection \<open>\<open>buildOutput\<close>\<close>

definition addComposeHeader :: "string \<Rightarrow> string" where
  "addComposeHeader yaml =
     ''# Generated by stackgen - Local Development Environment Generator'' @ [CHR 0x0A]
     @ ''# For local development and testing only.'' @ [CHR 0x0A]
     @ ''# Review configurations before any production use.'' @ [CHR 0x0A]
     @ ''#'' @ [CHR 0x0A]
     @ ''# Usage:'' @ [CHR 0x0A]
     @ ''#   docker compose up -d      # Start all services'' @ [CHR 0x0A]
     @ ''#   docker compose down       # Stop all services'' @ [CHR 0x0A]
     @ ''#   docker compose logs -f    # View logs'' @ [CHR 0x0A]
     @ ''#'' @ [CHR 0x0A]
     @ [CHR 0x0A]
     @ yaml"

text \<open>
  \<open>strings.ReplaceAll(key, "_", "-")\<close> and \<open>strings.ToLower\<close>, the latter on ASCII
  letters: the keys are the ASCII constants of the two service generators.
\<close>

definition ReplaceAll_underscore :: "string \<Rightarrow> string" where
  "ReplaceAll_underscore s = map (\<lambda>c. if c = CHR ''_'' then CHR ''-'' else c) s"

definition ToLower :: "string \<Rightarrow> string" where
  "ToLower s =
     map (\<lambda>c. if c \<in> set upper_letters then char_of (of_char c + (32 :: nat)) else c) s"

definition env_line :: "EnvVar \<Rightarrow> string" where
  "env_line env =
     (if ev_Description env \<noteq> [] then ''# '' @ ev_Description env @ [CHR 0x0A] else [])
     @ ev_Key env @ ''='' @ ev_Value env @ [CHR 0x0A]"

definition env_example_line :: "EnvVar \<Rightarrow> string" where
  "env_example_line env =
     (if ev_Description env \<noteq> [] then ''# '' @ ev_Description env @ [CHR 0x0A] else [])
     @ (if ev_Secret env
        then ev_Key env @ ''=<your-'' @ ToLower (ReplaceAll_underscore (ev_Key env)) @ ''>''
               @ [CHR 0x0A]
        else ev_Key env @ ''='' @ ev_Value env @ [CHR 0x0A])"

definition render_env :: "EnvVar list \<Rightarrow> string" where
  "render_env envVars =
     fold (\<lambda>env envBuilder. envBuilder @ env_line env) envVars
       (''# Generated by stackgen - For local development only'' @ [CHR 0x0A]
        @ ''# WARNING: Do not commit this file to version control'' @ [CHR 0x0A, CHR 0x0A])"

definition render_env_example :: "EnvVar list \<Rightarrow> string" where
  "render_env_example envVars =
     fold (\<lambda>env envExampleBuilder. envExampleBuilder @ env_example_line env) envVars
       (''# Environment variables for stackgen'' @ [CHR 0x0A]
        @ ''# Copy this file to .env and fill in the values'' @ [CHR 0x0A, CHR 0x0A])"

definition buildOutput :: "collaborators \<Rightarrow> Generator \<Rightarrow> error + GeneratedOutput" where
  "buildOutput X g =
     (case yaml_Marshal X (g_compose g) of
        Inl err \<Rightarrow> Inl (FailedToMarshalCompose err)
      | Inr composeYAML \<Rightarrow>
          Inr \<lparr>go_ComposeYAML = addComposeHeader composeYAML,
               go_EnvFile = render_env (g_envVars g),
               go_EnvExampleFile = render_env_example (g_envVars g),
               go_GitIgnore = GitIgnore X,
               go_Dockerfiles = g_dockerfiles g\<rparr>)"

subsection \<open>\<open>Generate\<close>\<close>

text \<open>
  The two loops of \<open>Generate\<close> over the datastores and the runtimes of the Project. A
  result \<open>Inl\<close> is a panic, a fatal error or the error \<open>Generate\<close> returns; the generator
  is not used after any of them.
\<close>

definition store_service :: "string \<Rightarrow> ComposeService \<Rightarrow> EnvVar list \<Rightarrow> Generator \<Rightarrow> Generator" where
  "store_service name service envs g =
     g\<lparr>g_compose := (g_compose g)\<lparr>cf_Services := (cf_Services (g_compose g))(name \<mapsto> service)\<rparr>,
       g_envVars := g_envVars g @ envs\<rparr>"

fun generate_datastores ::
  "Datastore list \<Rightarrow> string \<Rightarrow> Generator \<Rightarrow> rand_source \<Rightarrow> error + (Generator \<times> rand_source)" where
  "generate_datastores [] networkName g rnd = Inr (g, rnd)"
| "generate_datastores (ds # rest) networkName g rnd =
     (case generateDatastoreService g ds networkName rnd of
        Inl fatal \<Rightarrow> Inl fatal
      | Inr (service, envs, err, g1, rnd1) \<Rightarrow>
          (case err of
             Some e \<Rightarrow> Inl (FailedToGenerateDatastore (ds_Name ds) e)
           | None \<Rightarrow>
               (case add_volume (ds_Name ds @ ''-data'')
                       (store_service (ds_Name ds) service envs g1) of
                  Inl panic \<Rightarrow> Inl panic
                | Inr g2 \<Rightarrow> generate_datastores rest networkName g2 rnd1)))"

fun generate_runtimes ::
  "collaborators \<Rightarrow> Runtime list \<Rightarrow> string \<Rightarrow> Generator \<Rightarrow> error + Generator" where
  "generate_runtimes X [] networkName g = Inr g"
| "generate_runtimes X (rt # rest) networkName g =
     (case generateRuntimeService X g rt networkName of
        (service, envs, dockerfile, err) \<Rightarrow>
          (case err of
             Some e \<Rightarrow> Inl (FailedToGenerateRuntime (rt_Name rt) e)
           | None \<Rightarrow>
               (let g1 = store_service (rt_Name rt) service envs g;
                    g2 = (if dockerfile \<noteq> []
                          then g1\<lparr>g_dockerfiles := (g_dockerfiles g1)(rt_Name rt \<mapsto> dockerfile)\<rparr>
                          else g1)
                in generate_runtimes X rest networkName g2)))"

text \<open>The first statements of \<open>Generate\<close> make the maps of networks and of volumes.\<close>

definition init_compose :: "Generator \<Rightarrow> Generator" where
  "init_compose g =
     g\<lparr>g_compose := (g_compose g)
         \<lparr>cf_Networks :=
            Some [p_Name (g_project g) @ ''-network'' \<mapsto> [''driver'' \<mapsto> ''bridge'']],
          cf_Volumes := Some Map.empty\<rparr>\<rparr>"

definition Generate ::
  "collaborators \<Rightarrow> Generator \<Rightarrow> rand_source
     \<Rightarrow> error + (GeneratedOutput \<times> Generator \<times> rand_source)" where
  "Generate X g rnd =
     (let g0 = init_compose g;
          networkName = p_Name (g_project g) @ ''-network''
      in case generate_datastores (p_Datastores (g_project g)) networkName g0 rnd of
           Inl e \<Rightarrow> Inl e
         | Inr (g1, rnd1) \<Rightarrow>
             (case generate_runtimes X (p_Runtimes (g_project g)) networkName g1 of
                Inl e \<Rightarrow> Inl e
              | Inr g2 \<Rightarrow>
                  (case buildOutput X g2 of
                     Inl e \<Rightarrow> Inl e
                   | Inr output \<Rightarrow> Inr (output, g2, rnd1))))"

text \<open>Stand-ins for the collaborators and a Project to run the generator on.\<close>

definition demo_collaborators :: collaborators where
  "demo_collaborators =
     \<lparr>yaml_Marshal = (\<lambda>c. Inr ''services: {}''),
      GoDockerfile = (\<lambda>f. ''FROM golang''), NodeDockerfile = (\<lambda>f. ''FROM node''),
      PythonDockerfile = (\<lambda>f. ''FROM python''), JavaDockerfile = (\<lambda>f. ''FROM java''),
      RustDockerfile = (\<lambda>f. ''FROM rust''), CSharpDockerfile = (\<lambda>f. ''FROM dotnet''),
      GitIgnore = ''.env''\<rparr>"

definition stack_project :: Project where
  "stack_project =
     Project_zero
       \<lparr>p_Name := ''demo'', p_OutputDir := ''.'',
        p_Datastores :=
          [Datastore_zero
             \<lparr>ds_Type := ''neo4j'', ds_Name := ''neo4j'', ds_Tag := ''5'',
              ds_Port := 5219, ds_InternalPort := 7474\<rparr>,
           Datastore_zero
             \<lparr>ds_Type := ''postgres'', ds_Name := ''postgres'', ds_Tag := ''16-alpine'',
              ds_Port := 5432, ds_InternalPort := 5432\<rparr>,
           Datastore_zero
             \<lparr>ds_Type := ''redis-stack'', ds_Name := ''cache'', ds_Tag := ''latest'',
              ds_Port := 6379, ds_InternalPort := 6379\<rparr>,
           Datastore_zero
             \<lparr>ds_Type := ''mssql'', ds_Name := ''mssql'', ds_Tag := ''2022-latest'',
              ds_Port := 1433, ds_InternalPort := 1433\<rparr>]\<rparr>"

definition stack_bytes :: rand_source where
  "stack_bytes =
     [[1, 2, 3, 4, 5, 6, 7, 8], [9, 10, 11, 12, 13, 14, 15, 16],
      [17, 18, 19, 20, 21, 22, 23, 24], [25, 26, 27, 28, 29, 30, 31, 32],
      [0, 26, 52, 62, 66, 67, 255, 1, 2, 3, 4, 5]]"

section \<open>Properties of the password generators\<close>

lemma rand_Read_Cons: "0 < n \<Longrightarrow> n \<le> length bs \<Longrightarrow> rand_Read n (bs # rnd) = Inr (take n bs, rnd)"
  by (simp add: rand_Read_def)

lemma rand_Read_Inl: "rand_Read n rnd = Inl e \<Longrightarrow> e = RandReadFatal"
  by (auto simp: rand_Read_def split: if_splits list.splits)

lemma rand_Read_Inr:
  "rand_Read n rnd = Inr (bytes, rnd') \<Longrightarrow> 0 < n \<Longrightarrow>
   \<exists>bs. rnd = bs # rnd' \<and> n \<le> length bs \<and> bytes = take n bs"
  by (auto simp: rand_Read_def split: if_splits list.splits)

lemma length_rand_Read: "rand_Read n rnd = Inr (bytes, rnd') \<Longrightarrow> length bytes = n"
  by (auto simp: rand_Read_def split: if_splits list.splits)

lemma generatePassword_16:
  "generatePassword 16 rnd =
     (case rand_Read 8 rnd of
        Inl fatal \<Rightarrow> Inl fatal
      | Inr (bytes, rnd') \<Rightarrow> Inr (EncodeToString bytes, rnd'))"
  by (simp add: generatePassword_def go_div_def Let_def)

lemma generatePassword_16_Cons:
  "8 \<le> length bs \<Longrightarrow> generatePassword 16 (bs # rnd) = Inr (EncodeToString (take 8 bs), rnd)"
  by (simp add: generatePassword_16 rand_Read_Cons)

lemma generatePassword_16_Inr:
  assumes "generatePassword 16 rnd = Inr (pw, rnd')"
  shows "\<exists>bs. rnd = bs # rnd' \<and> 8 \<le> length bs \<and> pw = EncodeToString (take 8 bs)"
proof -
  from assms obtain bytes where r: "rand_Read 8 rnd = Inr (bytes, rnd')"
    and pw: "pw = EncodeToString bytes"
    by (auto simp: generatePassword_16 split: sum.splits)
  from rand_Read_Inr [OF r] pw show ?thesis by auto
qed

lemma generatePassword_16_Inl:
  assumes "generatePassword 16 rnd = Inl e"
  shows "e = RandReadFatal \<and> rand_Read 8 rnd = Inl RandReadFatal"
proof -
  from assms have "rand_Read 8 rnd = Inl e"
    by (auto simp: generatePassword_16 split: sum.splits)
  with rand_Read_Inl [OF this] show ?thesis by simp
qed

lemma length_chars: "length chars = 67"
  by (simp add: chars_def)

lemma fill_password_eq:
  "4 \<le> i \<Longrightarrow> i \<le> len \<Longrightarrow> length password = len \<Longrightarrow> length randBytes = len - 4 \<Longrightarrow>
   fill_password i len randBytes password
     = take i password @ map (\<lambda>b. chars ! (unat b mod length chars)) (drop (i - 4) randBytes)"
proof (induction i len randBytes password rule: fill_password.induct)
  case (1 i len randBytes password)
  show ?case
  proof (cases "i < len")
    case False
    then have "fill_password i len randBytes password = password"
      by (subst fill_password.simps) simp
    with False "1.prems" show ?thesis by simp
  next
    case True
    let ?c = "chars ! (unat (randBytes ! (i - 4)) mod length chars)"
    have idx: "i - 4 < length randBytes" using True "1.prems" by simp
    have step1: "fill_password i len randBytes password
        = fill_password (i + 1) len randBytes (password[i := ?c])"
      using True by (subst fill_password.simps) simp
    have step2: "fill_password (i + 1) len randBytes (password[i := ?c])
        = take (i + 1) (password[i := ?c])
          @ map (\<lambda>b. chars ! (unat b mod length chars)) (drop (i + 1 - 4) randBytes)"
      using True "1.prems" by (intro "1.IH") simp_all
    have step3: "take (i + 1) (password[i := ?c]) = take i password @ [?c]"
      using True "1.prems" by (simp add: take_Suc_conv_app_nth)
    have s: "i + 1 - 4 = Suc (i - 4)" using "1.prems"(1) by simp
    have step4: "drop (i - 4) randBytes = randBytes ! (i - 4) # drop (i + 1 - 4) randBytes"
      unfolding s using idx by (simp only: Cons_nth_drop_Suc)
    show ?thesis
      unfolding step1 step2 step3 step4 by simp
  qed
qed

lemma generateStrongPassword_eq:
  assumes "4 \<le> len"
  shows "generateStrongPassword len rnd =
     (case rand_Read (nat (len - 4)) rnd of
        Inl fatal \<Rightarrow> Inl fatal
      | Inr (randBytes, rnd') \<Rightarrow>
          Inr (''Aa1!'' @ map (\<lambda>b. chars ! (unat b mod length chars)) randBytes, rnd'))"
proof (cases "rand_Read (nat (len - 4)) rnd")
  case (Inl fatal)
  with assms show ?thesis by (simp add: generateStrongPassword_def Let_def)
next
  case (Inr res)
  obtain randBytes rnd' where res: "res = (randBytes, rnd')" by (cases res)
  have lr: "length randBytes = nat len - 4"
    using length_rand_Read [of "nat (len - 4)" rnd randBytes rnd'] Inr res assms by simp
  let ?p0 = "(replicate (nat len) (CHR 0x00))
      [0 := CHR ''A'', 1 := CHR ''a'', 2 := CHR ''1'', 3 := CHR ''!'']"
  from assms have "4 \<le> nat len" by simp
  then obtain m where m: "nat len = 4 + m" using le_Suc_ex by blast
  have four: "replicate 4 (CHR 0x00) = [CHR 0x00, CHR 0x00, CHR 0x00, CHR 0x00]"
    by (simp add: numeral_eq_Suc)
  have t: "take 4 ?p0 = ''Aa1!''"
    by (simp add: m replicate_add four list_update_append)
  have "fill_password 4 (nat len) randBytes ?p0
      = take 4 ?p0 @ map (\<lambda>b. chars ! (unat b mod length chars)) (drop (4 - 4) randBytes)"
    using assms lr by (intro fill_password_eq) simp_all
  with t have "fill_password 4 (nat len) randBytes ?p0
      = ''Aa1!'' @ map (\<lambda>b. chars ! (unat b mod length chars)) randBytes"
    by simp
  with assms Inr res show ?thesis
    by (simp add: generateStrongPassword_def Let_def)
qed

lemma generateStrongPassword_16:
  "generateStrongPassword 16 rnd =
     (case rand_Read 12 rnd of
        Inl fatal \<Rightarrow> Inl fatal
      | Inr (randBytes, rnd') \<Rightarrow>
          Inr (''Aa1!'' @ map (\<lambda>b. chars ! (unat b mod length chars)) randBytes, rnd'))"
  using generateStrongPassword_eq [of 16 rnd] by simp

text \<open>
  C3, as amended. \<open>generateStrongPassword\<close> with a length of at least 4 reads length - 4
  random bytes and returns the four characters A, a, 1 and ! (an uppercase letter, a
  lowercase letter, a digit and a policy symbol, in that order) followed, for every byte
  read, in order, by the character of the alphabet at index byte modulo the alphabet's
  length. The alphabet is the 26 lowercase letters, the 26 uppercase letters, the 10
  digits and the 5 symbols !@#$%, in that order: 67 characters. A failed read ends the
  run.
\<close>

theorem generateStrongPassword_layout:
  assumes "4 \<le> len"
  shows "(\<forall>e. rand_Read (nat (len - 4)) rnd = Inl e \<longrightarrow> generateStrongPassword len rnd = Inl e) \<and>
         (\<forall>randBytes rnd'.
            rand_Read (nat (len - 4)) rnd = Inr (randBytes, rnd') \<longrightarrow>
            length randBytes = nat (len - 4) \<and>
            generateStrongPassword len rnd
              = Inr (''Aa1!'' @ map (\<lambda>b. chars ! (unat b mod 67)) randBytes, rnd')) \<and>
         chars = lower_letters @ upper_letters @ digit_chars @ policy_symbols \<and>
         length lower_letters = 26 \<and> length upper_letters = 26 \<and>
         length digit_chars = 10 \<and> length policy_symbols = 5 \<and> length chars = 67 \<and>
         CHR ''A'' \<in> set upper_letters \<and> CHR ''a'' \<in> set lower_letters \<and>
         CHR ''1'' \<in> set digit_chars \<and> CHR ''!'' \<in> set policy_symbols"
proof -
  have a: "generateStrongPassword len rnd = Inl e" if "rand_Read (nat (len - 4)) rnd = Inl e" for e
    using generateStrongPassword_eq [OF assms, of rnd] that by simp
  have b: "length randBytes = nat (len - 4) \<and>
      generateStrongPassword len rnd
        = Inr (''Aa1!'' @ map (\<lambda>b. chars ! (unat b mod 67)) randBytes, rnd')"
    if "rand_Read (nat (len - 4)) rnd = Inr (randBytes, rnd')" for randBytes rnd'
    using generateStrongPassword_eq [OF assms, of rnd] that length_rand_Read [OF that]
    by (simp add: length_chars)
  have c: "chars = lower_letters @ upper_letters @ digit_chars @ policy_symbols"
    by (simp add: chars_def lower_letters_def upper_letters_def digit_chars_def
        policy_symbols_def)
  have d: "length lower_letters = 26" "length upper_letters = 26" "length digit_chars = 10"
    "length policy_symbols = 5" "CHR ''A'' \<in> set upper_letters"
    "CHR ''a'' \<in> set lower_letters" "CHR ''1'' \<in> set digit_chars"
    "CHR ''!'' \<in> set policy_symbols"
    by (simp_all add: upper_letters_def lower_letters_def digit_chars_def policy_symbols_def)
  from a b c d length_chars show ?thesis by blast
qed

theorem generateStrongPassword_layout_witness:
  "(4 :: int) \<le> 16 \<and>
   rand_Read (nat (16 - 4)) [[0, 26, 52, 62, 66, 67, 255, 1, 2, 3, 4, 5]]
     = Inr ([0, 26, 52, 62, 66, 67, 255, 1, 2, 3, 4, 5], []) \<and>
   generateStrongPassword 16 [[0, 26, 52, 62, 66, 67, 255, 1, 2, 3, 4, 5]]
     = Inr (''Aa1!aA0!%a2bcdef'', []) \<and>
   generateStrongPassword 16 [[0, 26, 52]] = Inl RandReadFatal"
proof -
  have h: "(4 :: int) \<le> 16" by simp
  have r: "rand_Read (nat (16 - 4)) [[0, 26, 52, 62, 66, 67, 255, 1, 2, 3, 4, 5]]
     = Inr ([0, 26, 52, 62, 66, 67, 255, 1, 2, 3, 4, 5], [])"
    by (simp add: rand_Read_def)
  have f: "rand_Read (nat (16 - 4)) [[0, 26, 52]] = Inl RandReadFatal"
    by (simp add: rand_Read_def)
  note run = generateStrongPassword_layout [OF h, of "[[0, 26, 52, 62, 66, 67, 255, 1, 2, 3, 4, 5]]",
      THEN conjunct2, THEN conjunct1, rule_format, OF r, THEN conjunct2]
  then have g: "generateStrongPassword 16 [[0, 26, 52, 62, 66, 67, 255, 1, 2, 3, 4, 5]]
     = Inr (''Aa1!aA0!%a2bcdef'', [])"
    by (simp add: chars_def)
  note generateStrongPassword_layout [OF h, of "[[0, 26, 52]]", THEN conjunct1, rule_format, OF f]
  with h r g show ?thesis by blast
qed

text \<open>
  C3 as stated fails: the alphabet of the strong passwords has 67 characters, not 70.
  The byte 69 selects index 69 mod 67 = 2, the letter c.
\<close>

theorem strong_alphabet_size_counterexample:
  "length chars \<noteq> 70 \<and> length chars = 67 \<and>
   generateStrongPassword 5 [[69]] = Inr (''Aa1!c'', [])"
proof -
  have "generateStrongPassword 5 [[69]] = Inr (''Aa1!c'', [])"
    by (simp add: generateStrongPassword_eq rand_Read_def chars_def)
  then show ?thesis by (simp add: length_chars)
qed

section \<open>The cases of \<open>generateDatastoreService\<close>, one equation per kind\<close>

lemma generateDatastoreService_kind:
  "ds_Type ds = DatastorePostgres \<Longrightarrow>
     generateDatastoreService g ds network rnd =
       (case generatePassword 16 rnd of
          Inl fatal \<Rightarrow> Inl fatal
        | Inr (password, rnd1) \<Rightarrow>
            Inr (postgres_service g ds network (ds_Name ds @ ''-data''),
                 postgres_envs g ds password, None, g, rnd1))"
  "ds_Type ds = DatastoreMySQL \<Longrightarrow>
     generateDatastoreService g ds network rnd =
       (case generatePassword 16 rnd of
          Inl fatal \<Rightarrow> Inl fatal
        | Inr (password, rnd1) \<Rightarrow>
            (case generatePassword 16 rnd1 of
               Inl fatal \<Rightarrow> Inl fatal
             | Inr (rootPassword, rnd2) \<Rightarrow>
                 Inr (mysql_service g ds network (ds_Name ds @ ''-data''),
                      mysql_envs g ds password rootPassword, None, g, rnd2)))"
  "ds_Type ds = DatastoreMSSQL \<Longrightarrow>
     generateDatastoreService g ds network rnd =
       (case generatePassword 16 rnd of
          Inl fatal \<Rightarrow> Inl fatal
        | Inr (password, rnd1) \<Rightarrow>
            (case generateStrongPassword 16 rnd1 of
               Inl fatal \<Rightarrow> Inl fatal
             | Inr (strongPassword, rnd2) \<Rightarrow>
                 Inr (mssql_service g ds network (ds_Name ds @ ''-data''),
                      mssql_envs ds strongPassword, None, g, rnd2)))"
  "ds_Type ds = DatastoreNeo4j \<Longrightarrow>
     generateDatastoreService g ds network rnd =
       (case generatePassword 16 rnd of
          Inl fatal \<Rightarrow> Inl fatal
        | Inr (password, rnd1) \<Rightarrow>
            (case add_volume (ds_Name ds @ ''-logs'') g of
               Inl panic \<Rightarrow> Inl panic
             | Inr g1 \<Rightarrow>
                 Inr (neo4j_service g ds network (ds_Name ds @ ''-data''),
                      neo4j_envs ds password, None, g1, rnd1)))"
  "ds_Type ds = DatastoreRedis \<Longrightarrow>
     generateDatastoreService g ds network rnd =
       (case generatePassword 16 rnd of
          Inl fatal \<Rightarrow> Inl fatal
        | Inr (password, rnd1) \<Rightarrow>
            Inr (redis_service g ds network (ds_Name ds @ ''-data''),
                 redis_envs ds password, None, g, rnd1))"
  "ds_Type ds = DatastoreRedisStack \<Longrightarrow>
     generateDatastoreService g ds network rnd =
       (case generatePassword 16 rnd of
          Inl fatal \<Rightarrow> Inl fatal
        | Inr (password, rnd1) \<Rightarrow>
            Inr (redis_stack_service g ds network (ds_Name ds @ ''-data''),
                 redis_stack_envs ds password, None, g, rnd1))"
  "ds_Type ds \<notin> set AvailableDatastores \<Longrightarrow>
     generateDatastoreService g ds network rnd =
       (case generatePassword 16 rnd of
          Inl fatal \<Rightarrow> Inl fatal
        | Inr (password, rnd1) \<Rightarrow> Inr (ComposeService_zero, [], None, g, rnd1))"
  by (simp_all add: generateDatastoreService_def Let_def kind_defs AvailableDatastores_def
      split: sum.splits prod.splits)

lemma generateStrongPassword_16_Inr:
  assumes "generateStrongPassword 16 rnd = Inr (pw, rnd')"
  shows "\<exists>randBytes :: byte list. length randBytes = 12 \<and>
           pw = ''Aa1!'' @ map (\<lambda>b. chars ! (unat b mod length chars)) randBytes"
proof -
  from assms obtain randBytes where r: "rand_Read 12 rnd = Inr (randBytes, rnd')"
    and pw: "pw = ''Aa1!'' @ map (\<lambda>b. chars ! (unat b mod length chars)) randBytes"
    by (auto simp: generateStrongPassword_16 split: sum.splits)
  from length_rand_Read [OF r] pw show ?thesis by blast
qed

lemmas policy_defs =
  ContainsAny_def upper_letters_def lower_letters_def digit_chars_def policy_symbols_def

text \<open>
  C2. Whatever the random source delivers, the administrator password generated for a
  SQL Server datastore has 16 characters and contains an uppercase letter, a lowercase
  letter, a digit and a symbol of the policy alphabet: every result of
  \<open>generateDatastoreService\<close> on such a datastore carries such a password, and there is a
  result whenever the two reads (8 and 12 bytes) are delivered.
\<close>

theorem mssql_password_meets_policy:
  assumes "ds_Type ds = DatastoreMSSQL"
  shows "(\<forall>svc envs err g' rnd'.
            generateDatastoreService g ds network rnd = Inr (svc, envs, err, g', rnd') \<longrightarrow>
            ev_Key (hd envs) = ''MSSQL_SA_PASSWORD'' \<and> length (ev_Value (hd envs)) = 16 \<and>
            ContainsAny (ev_Value (hd envs)) upper_letters \<and>
            ContainsAny (ev_Value (hd envs)) lower_letters \<and>
            ContainsAny (ev_Value (hd envs)) digit_chars \<and>
            ContainsAny (ev_Value (hd envs)) policy_symbols) \<and>
         (\<forall>bs bs' rest.
            8 \<le> length bs \<and> 12 \<le> length bs' \<longrightarrow>
            (\<exists>svc envs pw.
               generateDatastoreService g ds network (bs # bs' # rest)
                 = Inr (svc, envs, None, g, rest) \<and>
               ev_Key (hd envs) = ''MSSQL_SA_PASSWORD'' \<and> ev_Value (hd envs) = pw \<and>
               length pw = 16 \<and>
               ContainsAny pw upper_letters \<and> ContainsAny pw lower_letters \<and>
               ContainsAny pw digit_chars \<and> ContainsAny pw policy_symbols))"
proof -
  have safe: "ev_Key (hd envs) = ''MSSQL_SA_PASSWORD'' \<and> length (ev_Value (hd envs)) = 16 \<and>
      ContainsAny (ev_Value (hd envs)) upper_letters \<and>
      ContainsAny (ev_Value (hd envs)) lower_letters \<and>
      ContainsAny (ev_Value (hd envs)) digit_chars \<and>
      ContainsAny (ev_Value (hd envs)) policy_symbols"
    if run: "generateDatastoreService g ds network rnd = Inr (svc, envs, err, g', rnd')"
    for svc envs err g' rnd'
  proof -
    from run obtain pw rnd1 sp where
      "generateStrongPassword 16 rnd1 = Inr (sp, rnd')" and envs: "envs = mssql_envs ds sp"
      by (auto simp: generateDatastoreService_kind(3) [OF assms] split: sum.splits)
    from generateStrongPassword_16_Inr [OF this(1)] obtain randBytes :: "byte list" where
      rb: "length randBytes = 12"
      and sp: "sp = ''Aa1!'' @ map (\<lambda>b. chars ! (unat b mod length chars)) randBytes"
      by blast
    have hd: "ev_Key (hd envs) = ''MSSQL_SA_PASSWORD''" "ev_Value (hd envs) = sp"
      by (simp_all add: envs mssql_envs_def EnvVar_of_def)
    show ?thesis
      unfolding hd sp using rb by (simp add: policy_defs)
  qed
  have live: "\<exists>svc envs pw.
      generateDatastoreService g ds network (bs # bs' # rest) = Inr (svc, envs, None, g, rest) \<and>
      ev_Key (hd envs) = ''MSSQL_SA_PASSWORD'' \<and> ev_Value (hd envs) = pw \<and>
      length pw = 16 \<and>
      ContainsAny pw upper_letters \<and> ContainsAny pw lower_letters \<and>
      ContainsAny pw digit_chars \<and> ContainsAny pw policy_symbols"
    if len: "8 \<le> length bs \<and> 12 \<le> length bs'" for bs bs' rest
  proof -
    let ?pw = "''Aa1!'' @ map (\<lambda>b. chars ! (unat b mod length chars)) (take 12 bs')"
    have sp: "generateStrongPassword 16 (bs' # rest) = Inr (?pw, rest)"
      using len by (simp add: generateStrongPassword_16 rand_Read_Cons)
    have run: "generateDatastoreService g ds network (bs # bs' # rest)
        = Inr (mssql_service g ds network (ds_Name ds @ ''-data''), mssql_envs ds ?pw, None, g,
               rest)"
      using len sp by (simp add: generateDatastoreService_kind(3) [OF assms]
          generatePassword_16_Cons)
    have hd: "ev_Key (hd (mssql_envs ds ?pw)) = ''MSSQL_SA_PASSWORD''"
      "ev_Value (hd (mssql_envs ds ?pw)) = ?pw"
      by (simp_all add: mssql_envs_def EnvVar_of_def)
    have pol: "length ?pw = 16" "ContainsAny ?pw upper_letters" "ContainsAny ?pw lower_letters"
      "ContainsAny ?pw digit_chars" "ContainsAny ?pw policy_symbols"
      using len by (simp_all add: policy_defs)
    from run hd pol show ?thesis by blast
  qed
  from safe live show ?thesis by blast
qed

theorem mssql_password_meets_policy_witness:
  "ds_Type (p_Datastores stack_project ! 3) = DatastoreMSSQL \<and>
   (8 :: nat) \<le> length [25, 26, 27, 28, 29, 30, 31, 32 :: byte] \<and>
   (12 :: nat) \<le> length [0, 26, 52, 62, 66, 67, 255, 1, 2, 3, 4, 5 :: byte] \<and>
   (\<exists>svc envs.
      generateDatastoreService (init_compose (New stack_project)) (p_Datastores stack_project ! 3)
        ''demo-network''
        [[25, 26, 27, 28, 29, 30, 31, 32], [0, 26, 52, 62, 66, 67, 255, 1, 2, 3, 4, 5]]
        = Inr (svc, envs, None, init_compose (New stack_project), []) \<and>
      ev_Value (hd envs) = ''Aa1!aA0!%a2bcdef'' \<and>
      ContainsAny (ev_Value (hd envs)) upper_letters \<and>
      ContainsAny (ev_Value (hd envs)) lower_letters \<and>
      ContainsAny (ev_Value (hd envs)) digit_chars \<and>
      ContainsAny (ev_Value (hd envs)) policy_symbols)"
proof -
  let ?ds = "p_Datastores stack_project ! 3"
  let ?g = "init_compose (New stack_project)"
  let ?rnd = "[[25, 26, 27, 28, 29, 30, 31, 32], [0, 26, 52, 62, 66, 67, 255, 1, 2, 3, 4, 5]]
    :: rand_source"
  have h: "ds_Type ?ds = DatastoreMSSQL"
    by (simp add: stack_project_def Project_zero_def Datastore_zero_def kind_defs)
  have l: "(8 :: nat) \<le> length [25, 26, 27, 28, 29, 30, 31, 32 :: byte] \<and>
      (12 :: nat) \<le> length [0, 26, 52, 62, 66, 67, 255, 1, 2, 3, 4, 5 :: byte]"
    by simp
  note mssql_password_meets_policy [OF h, of ?g "''demo-network''" ?rnd, THEN conjunct2,
      rule_format, OF l]
  then obtain svc envs pw where run: "generateDatastoreService ?g ?ds ''demo-network'' ?rnd
        = Inr (svc, envs, None, ?g, [])"
    and pw: "ev_Value (hd envs) = pw"
    and pol: "ContainsAny pw upper_letters" "ContainsAny pw lower_letters"
      "ContainsAny pw digit_chars" "ContainsAny pw policy_symbols"
    by blast
  have "generateDatastoreService ?g ?ds ''demo-network'' ?rnd
      = Inr (mssql_service ?g ?ds ''demo-network'' (ds_Name ?ds @ ''-data''),
             mssql_envs ?ds ''Aa1!aA0!%a2bcdef'', None, ?g, [])"
    by (simp add: generateDatastoreService_kind(3) [OF h] generatePassword_16_Cons
        generateStrongPassword_16 rand_Read_Cons chars_def)
  with run have "envs = mssql_envs ?ds ''Aa1!aA0!%a2bcdef''" by simp
  then have "ev_Value (hd envs) = ''Aa1!aA0!%a2bcdef''"
    by (simp add: mssql_envs_def EnvVar_of_def)
  with h l run pw pol show ?thesis by blast
qed

section \<open>A run of the generator\<close>

text \<open>
  \<open>Generate\<close> on \<open>stack_project\<close> (Neo4j on 5219, Postgres on 5432, Redis Stack on 6379,
  SQL Server on 1433) with the five reads of \<open>stack_bytes\<close>.
\<close>

lemma fmt_d_stack:
  "fmt_d 5219 = ''5219''" "fmt_d (wrap64 5432) = ''5432''" "fmt_d 5432 = ''5432''"
  "fmt_d 6379 = ''6379''" "fmt_d (wrap64 8001) = ''8001''" "fmt_d 1433 = ''1433''"
  by (simp_all add: fmt_d_def dec_nat.simps digits_def wrap64_def)

lemma stack_passwords:
  "generatePassword 16 stack_bytes = Inr (''0102030405060708'', tl stack_bytes)"
  "generatePassword 16 (tl stack_bytes) = Inr (''090a0b0c0d0e0f10'', tl (tl stack_bytes))"
  "generatePassword 16 (tl (tl stack_bytes))
     = Inr (''1112131415161718'', tl (tl (tl stack_bytes)))"
  "generatePassword 16 (tl (tl (tl stack_bytes)))
     = Inr (''191a1b1c1d1e1f20'', tl (tl (tl (tl stack_bytes))))"
  "generateStrongPassword 16 (tl (tl (tl (tl stack_bytes)))) = Inr (''Aa1!aA0!%a2bcdef'', [])"
  by (simp_all add: stack_bytes_def generatePassword_16 generateStrongPassword_16 rand_Read_def
      hextable_def drop_bit_eq_div chars_def)

lemma stack_run:
  "\<exists>out g.
     Generate demo_collaborators (New stack_project) stack_bytes = Inr (out, g, []) \<and>
     go_EnvFile out = render_env (g_envVars g) \<and>
     map ev_Key (g_envVars g) =
       [''NEO4J_AUTH'', ''NEO4J_URI'', ''POSTGRES_USER'', ''POSTGRES_PASSWORD'', ''POSTGRES_DB'',
        ''DATABASE_URL'', ''REDIS_STACK_PASSWORD'', ''REDIS_STACK_URL'', ''MSSQL_SA_PASSWORD'',
        ''MSSQL_URL''] \<and>
     hd (g_envVars g) = EnvVar_of ''NEO4J_AUTH'' ''neo4j/0102030405060708''
                          ''Neo4j authentication (Community Edition)'' True \<and>
     cf_Services (g_compose g) ''neo4j''
       = Some (neo4j_service (init_compose (New stack_project)) (p_Datastores stack_project ! 0)
                 ''demo-network'' ''neo4j-data'') \<and>
     map_option cs_Ports (cf_Services (g_compose g) ''neo4j'')
       = Some [''5219:7474'', ''5432:7687''] \<and>
     map_option cs_Ports (cf_Services (g_compose g) ''postgres'') = Some [''5432:5432''] \<and>
     map_option cs_Ports (cf_Services (g_compose g) ''cache'')
       = Some [''6379:6379'', ''8001:8001'']"
  by (simp add: Generate_def init_compose_def New_def stack_project_def Project_zero_def
      Datastore_zero_def kind_defs Let_def generateDatastoreService_def stack_passwords
      add_volume_def store_service_def buildOutput_def demo_collaborators_def
      neo4j_service_def postgres_service_def redis_stack_service_def mssql_service_def
      neo4j_envs_def postgres_envs_def redis_stack_envs_def mssql_envs_def EnvVar_of_def
      ComposeService_zero_def fmt_d_stack)

text \<open>
  C10. The service of a Neo4j datastore with external port p publishes p:7474 and
  (p + 213):7687, and the service of a Redis Stack datastore publishes p:6379 and
  (p + 1622):8001, whatever the generator already holds: the second host port is
  computed from p alone and no other service's port is consulted. The sums are those of
  Go's 64-bit \<open>int\<close>: they are p + 213 and p + 1622 for every port below 2^63 - 1622,
  hence for every TCP port. A service is generated whenever the read of the password
  bytes is delivered (and, for Neo4j, the map of volumes has been made, as \<open>Generate\<close>
  does first).
\<close>

theorem second_port_fixed_offset:
  "(ds_Type ds = DatastoreNeo4j \<and> 8 \<le> length bs \<and> cf_Volumes (g_compose g) \<noteq> None \<longrightarrow>
      (\<exists>svc envs g'.
         generateDatastoreService g ds network (bs # rest) = Inr (svc, envs, None, g', rest) \<and>
         cs_Ports svc = [fmt_d (ds_Port ds) @ '':7474'',
                         fmt_d (wrap64 (ds_Port ds + 213)) @ '':7687''])) \<and>
   (ds_Type ds = DatastoreRedisStack \<and> 8 \<le> length bs \<longrightarrow>
      (\<exists>svc envs.
         generateDatastoreService g ds network (bs # rest) = Inr (svc, envs, None, g, rest) \<and>
         cs_Ports svc = [fmt_d (ds_Port ds) @ '':6379'',
                         fmt_d (wrap64 (ds_Port ds + 1622)) @ '':8001''])) \<and>
   (\<forall>svc envs err g' rnd'.
      generateDatastoreService g ds network rnd = Inr (svc, envs, err, g', rnd') \<longrightarrow>
      (ds_Type ds = DatastoreNeo4j \<longrightarrow>
         cs_Ports svc = [fmt_d (ds_Port ds) @ '':7474'',
                         fmt_d (wrap64 (ds_Port ds + 213)) @ '':7687'']) \<and>
      (ds_Type ds = DatastoreRedisStack \<longrightarrow>
         cs_Ports svc = [fmt_d (ds_Port ds) @ '':6379'',
                         fmt_d (wrap64 (ds_Port ds + 1622)) @ '':8001''])) \<and>
   (- (2 ^ 63) \<le> ds_Port ds \<and> ds_Port ds < 2 ^ 63 - 1622 \<longrightarrow>
      wrap64 (ds_Port ds + 213) = ds_Port ds + 213 \<and>
      wrap64 (ds_Port ds + 1622) = ds_Port ds + 1622)"
proof -
  have neo: "\<exists>svc envs g'.
      generateDatastoreService g ds network (bs # rest) = Inr (svc, envs, None, g', rest) \<and>
      cs_Ports svc = [fmt_d (ds_Port ds) @ '':7474'',
                      fmt_d (wrap64 (ds_Port ds + 213)) @ '':7687'']"
    if "ds_Type ds = DatastoreNeo4j \<and> 8 \<le> length bs \<and> cf_Volumes (g_compose g) \<noteq> None"
  proof -
    from that obtain volumes where "cf_Volumes (g_compose g) = Some volumes" by auto
    then obtain g1 where "add_volume (ds_Name ds @ ''-logs'') g = Inr g1"
      by (simp add: add_volume_def)
    with that show ?thesis
      by (simp add: generateDatastoreService_kind(4) generatePassword_16_Cons
          neo4j_service_def ComposeService_zero_def)
  qed
  have rs: "\<exists>svc envs.
      generateDatastoreService g ds network (bs # rest) = Inr (svc, envs, None, g, rest) \<and>
      cs_Ports svc = [fmt_d (ds_Port ds) @ '':6379'',
                      fmt_d (wrap64 (ds_Port ds + 1622)) @ '':8001'']"
    if "ds_Type ds = DatastoreRedisStack \<and> 8 \<le> length bs"
    using that
    by (simp add: generateDatastoreService_kind(6) generatePassword_16_Cons
        redis_stack_service_def ComposeService_zero_def)
  have safe: "(ds_Type ds = DatastoreNeo4j \<longrightarrow>
         cs_Ports svc = [fmt_d (ds_Port ds) @ '':7474'',
                         fmt_d (wrap64 (ds_Port ds + 213)) @ '':7687'']) \<and>
      (ds_Type ds = DatastoreRedisStack \<longrightarrow>
         cs_Ports svc = [fmt_d (ds_Port ds) @ '':6379'',
                         fmt_d (wrap64 (ds_Port ds + 1622)) @ '':8001''])"
    if run: "generateDatastoreService g ds network rnd = Inr (svc, envs, err, g', rnd')"
    for svc envs err g' rnd'
  proof (intro conjI impI)
    assume t: "ds_Type ds = DatastoreNeo4j"
    from run have "svc = neo4j_service g ds network (ds_Name ds @ ''-data'')"
      by (auto simp: generateDatastoreService_kind(4) [OF t] split: sum.splits)
    then show "cs_Ports svc = [fmt_d (ds_Port ds) @ '':7474'',
                         fmt_d (wrap64 (ds_Port ds + 213)) @ '':7687'']"
      by (simp add: neo4j_service_def ComposeService_zero_def)
  next
    assume t: "ds_Type ds = DatastoreRedisStack"
    from run have "svc = redis_stack_service g ds network (ds_Name ds @ ''-data'')"
      by (auto simp: generateDatastoreService_kind(6) [OF t] split: sum.splits)
    then show "cs_Ports svc = [fmt_d (ds_Port ds) @ '':6379'',
                         fmt_d (wrap64 (ds_Port ds + 1622)) @ '':8001'']"
      by (simp add: redis_stack_service_def ComposeService_zero_def)
  qed
  have range: "wrap64 (ds_Port ds + 213) = ds_Port ds + 213 \<and>
      wrap64 (ds_Port ds + 1622) = ds_Port ds + 1622"
    if "- (2 ^ 63) \<le> ds_Port ds \<and> ds_Port ds < 2 ^ 63 - 1622"
    using that by (simp add: wrap64_in_range)
  from neo rs safe range show ?thesis by blast
qed

text \<open>
  In the run on \<open>stack_project\<close> the Neo4j service on 5219 publishes the host port
  5219 + 213 = 5432 beside the Postgres service on 5432.
\<close>

theorem second_port_fixed_offset_witness:
  "ds_Type (p_Datastores stack_project ! 0) = DatastoreNeo4j \<and>
   ds_Type (p_Datastores stack_project ! 2) = DatastoreRedisStack \<and>
   (8 :: nat) \<le> length (hd stack_bytes) \<and>
   cf_Volumes (g_compose (init_compose (New stack_project))) \<noteq> None \<and>
   - (2 ^ 63) \<le> ds_Port (p_Datastores stack_project ! 0) \<and>
   ds_Port (p_Datastores stack_project ! 0) < 2 ^ 63 - 1622 \<and>
   (\<exists>svc envs g'.
      generateDatastoreService (init_compose (New stack_project))
        (p_Datastores stack_project ! 0) ''demo-network'' stack_bytes
        = Inr (svc, envs, None, g', tl stack_bytes) \<and>
      cs_Ports svc = [''5219:7474'', ''5432:7687'']) \<and>
   (\<exists>out g.
      Generate demo_collaborators (New stack_project) stack_bytes = Inr (out, g, []) \<and>
      map_option cs_Ports (cf_Services (g_compose g) ''neo4j'')
        = Some [''5219:7474'', ''5432:7687''] \<and>
      map_option cs_Ports (cf_Services (g_compose g) ''postgres'') = Some [''5432:5432''] \<and>
      map_option cs_Ports (cf_Services (g_compose g) ''cache'')
        = Some [''6379:6379'', ''8001:8001''])"
proof -
  let ?neo = "p_Datastores stack_project ! 0"
  let ?g0 = "init_compose (New stack_project)"
  have sb: "stack_bytes = hd stack_bytes # tl stack_bytes"
    by (simp add: stack_bytes_def)
  have h: "ds_Type ?neo = DatastoreNeo4j \<and> 8 \<le> length (hd stack_bytes) \<and>
      cf_Volumes (g_compose ?g0) \<noteq> None"
    and h2: "ds_Type (p_Datastores stack_project ! 2) = DatastoreRedisStack"
    and p: "ds_Port ?neo = 5219"
    by (simp_all add: stack_project_def Project_zero_def Datastore_zero_def kind_defs
        stack_bytes_def init_compose_def)
  have r: "- (2 ^ 63) \<le> ds_Port ?neo \<and> ds_Port ?neo < 2 ^ 63 - 1622"
    unfolding p by simp
  note th = second_port_fixed_offset [of ?neo "hd stack_bytes" ?g0 "''demo-network''"
      "tl stack_bytes"]
  from th [THEN conjunct1, rule_format, OF h]
    th [THEN conjunct2, THEN conjunct2, THEN conjunct2, rule_format, OF r, THEN conjunct1]
  have a: "\<exists>svc envs g'.
      generateDatastoreService ?g0 ?neo ''demo-network'' stack_bytes
        = Inr (svc, envs, None, g', tl stack_bytes) \<and>
      cs_Ports svc = [''5219:7474'', ''5432:7687'']"
    unfolding sb [symmetric] p by (simp add: fmt_d_stack)
  from stack_run have b: "\<exists>out g.
      Generate demo_collaborators (New stack_project) stack_bytes = Inr (out, g, []) \<and>
      map_option cs_Ports (cf_Services (g_compose g) ''neo4j'')
        = Some [''5219:7474'', ''5432:7687''] \<and>
      map_option cs_Ports (cf_Services (g_compose g) ''postgres'') = Some [''5432:5432''] \<and>
      map_option cs_Ports (cf_Services (g_compose g) ''cache'')
        = Some [''6379:6379'', ''8001:8001'']"
    by blast
  from h h2 r a b show ?thesis by blast
qed

section \<open>Credentials in the generated services\<close>

text \<open>
  A compose variable reference \<open>${VAR:-default}\<close> carries a fallback default; the
  operator \<open>:-\<close> marks it.
\<close>

fun has_fallback_default :: "string \<Rightarrow> bool" where
  "has_fallback_default (a # b # rest) =
     ((a = CHR '':'' \<and> b = CHR ''-'') \<or> has_fallback_default (b # rest))"
| "has_fallback_default rest = False"

text \<open>
  The credential references of the other kinds are plain: no fallback default.
\<close>

lemma credential_references_plain:
  "cs_Environment (postgres_service g ds network v) ''POSTGRES_PASSWORD'' = Some ''${POSTGRES_PASSWORD}''"
  "cs_Environment (mysql_service g ds network v) ''MYSQL_ROOT_PASSWORD'' = Some ''${MYSQL_ROOT_PASSWORD}''"
  "cs_Environment (mysql_service g ds network v) ''MYSQL_PASSWORD'' = Some ''${MYSQL_PASSWORD}''"
  "cs_Environment (mssql_service g ds network v) ''MSSQL_SA_PASSWORD'' = Some ''${MSSQL_SA_PASSWORD}''"
  "cs_Environment (redis_stack_service g ds network v) ''REDIS_ARGS''
     = Some ''--requirepass ${REDIS_STACK_PASSWORD}''"
  "cs_Environment (redis_service g ds network v) = Map.empty"
  "\<not> has_fallback_default ''${POSTGRES_PASSWORD}''"
  "\<not> has_fallback_default ''${MYSQL_ROOT_PASSWORD}''"
  "\<not> has_fallback_default ''${MYSQL_PASSWORD}''"
  "\<not> has_fallback_default ''${MSSQL_SA_PASSWORD}''"
  "\<not> has_fallback_default ''--requirepass ${REDIS_STACK_PASSWORD}''"
  by (simp_all add: postgres_service_def mysql_service_def mssql_service_def
      redis_stack_service_def redis_service_def ComposeService_zero_def)

text \<open>
  C1 fails for Neo4j. The run on \<open>stack_project\<close> generates for the Neo4j datastore a
  service that assigns \<open>NEO4J_AUTH\<close> the reference \<open>${NEO4J_AUTH:-neo4j/password}\<close>,
  which has a fallback default, although the same case generates the secret
  \<open>NEO4J_AUTH\<close> for the environment file.
\<close>

theorem neo4j_auth_reference_has_default:
  "\<exists>out g svc.
     Generate demo_collaborators (New stack_project) stack_bytes = Inr (out, g, []) \<and>
     cf_Services (g_compose g) ''neo4j'' = Some svc \<and>
     cs_Environment svc ''NEO4J_AUTH'' = Some ''${NEO4J_AUTH:-neo4j/password}'' \<and>
     has_fallback_default ''${NEO4J_AUTH:-neo4j/password}'' \<and>
     hd (g_envVars g) = EnvVar_of ''NEO4J_AUTH'' ''neo4j/0102030405060708''
                          ''Neo4j authentication (Community Edition)'' True"
proof -
  from stack_run obtain out g where
    run: "Generate demo_collaborators (New stack_project) stack_bytes = Inr (out, g, [])"
    and hd: "hd (g_envVars g) = EnvVar_of ''NEO4J_AUTH'' ''neo4j/0102030405060708''
                          ''Neo4j authentication (Community Edition)'' True"
    and svc: "cf_Services (g_compose g) ''neo4j''
       = Some (neo4j_service (init_compose (New stack_project)) (p_Datastores stack_project ! 0)
                 ''demo-network'' ''neo4j-data'')"
    by blast
  have env: "cs_Environment (neo4j_service g' ds network v) ''NEO4J_AUTH''
      = Some ''${NEO4J_AUTH:-neo4j/password}''" for g' ds network v
    by (simp add: neo4j_service_def ComposeService_zero_def)
  have "has_fallback_default ''${NEO4J_AUTH:-neo4j/password}''" by simp
  with run hd svc env show ?thesis by blast
qed

section \<open>A failed read of the random source\<close>

lemma generate_datastores_append:
  "generate_datastores (xs @ ys) network g rnd =
     (case generate_datastores xs network g rnd of
        Inl e \<Rightarrow> Inl e
      | Inr (g1, rnd1) \<Rightarrow> generate_datastores ys network g1 rnd1)"
  by (induction xs arbitrary: g rnd) (simp_all split: sum.splits prod.splits option.splits)

lemma generateDatastoreService_first_read:
  "rand_Read 8 rnd = Inl e \<Longrightarrow> generateDatastoreService g ds network rnd = Inl e"
  by (simp add: generateDatastoreService_def generatePassword_16)

lemma generateDatastoreService_second_read:
  assumes "rand_Read 8 rnd = Inr (bs, rnd2)"
    and "(ds_Type ds = DatastoreMySQL \<and> rand_Read 8 rnd2 = Inl e) \<or>
         (ds_Type ds = DatastoreMSSQL \<and> rand_Read 12 rnd2 = Inl e)"
  shows "generateDatastoreService g ds network rnd = Inl e"
  using assms
  by (auto simp: generateDatastoreService_kind(2,3) generatePassword_16
      generateStrongPassword_16)

text \<open>
  C4. When a read of the random source fails while the password of a datastore is
  generated (the read of 8 bytes every datastore starts with, the second read of 8 bytes
  of a MySQL datastore or the read of 12 bytes of a SQL Server datastore), \<open>Generate\<close>
  ends with the fatal error and returns no bundle. A password that is returned is the
  encoding of exactly the bytes the source delivered for it.
\<close>

theorem failed_read_aborts_generation:
  "(p_Datastores project = before @ ds # after \<and>
    generate_datastores before (p_Name project @ ''-network'') (init_compose (New project)) rnd
      = Inr (g1, rnd1) \<and>
    (rand_Read 8 rnd1 = Inl e \<or>
     (\<exists>bs rnd2. rand_Read 8 rnd1 = Inr (bs, rnd2) \<and>
        ((ds_Type ds = DatastoreMySQL \<and> rand_Read 8 rnd2 = Inl e) \<or>
         (ds_Type ds = DatastoreMSSQL \<and> rand_Read 12 rnd2 = Inl e)))) \<longrightarrow>
    e = RandReadFatal \<and> Generate X (New project) rnd = Inl RandReadFatal) \<and>
   (\<forall>pw rest. generatePassword 16 rnd = Inr (pw, rest) \<longrightarrow>
      (\<exists>bs. rnd = bs # rest \<and> 8 \<le> length bs \<and> pw = EncodeToString (take 8 bs))) \<and>
   (\<forall>pw rest. generateStrongPassword 16 rnd = Inr (pw, rest) \<longrightarrow>
      (\<exists>bs. rnd = bs # rest \<and> 12 \<le> length bs \<and>
         pw = ''Aa1!'' @ map (\<lambda>b. chars ! (unat b mod 67)) (take 12 bs)))"
proof -
  let ?net = "p_Name project @ ''-network''"
  have abort: "e = RandReadFatal \<and> Generate X (New project) rnd = Inl RandReadFatal"
    if split: "p_Datastores project = before @ ds # after"
      and pre: "generate_datastores before ?net (init_compose (New project)) rnd = Inr (g1, rnd1)"
      and fail: "rand_Read 8 rnd1 = Inl e \<or>
        (\<exists>bs rnd2. rand_Read 8 rnd1 = Inr (bs, rnd2) \<and>
           ((ds_Type ds = DatastoreMySQL \<and> rand_Read 8 rnd2 = Inl e) \<or>
            (ds_Type ds = DatastoreMSSQL \<and> rand_Read 12 rnd2 = Inl e)))"
  proof -
    from fail have e: "e = RandReadFatal" by (auto dest: rand_Read_Inl)
    from fail have "generateDatastoreService g1 ds ?net rnd1 = Inl e"
      by (auto intro: generateDatastoreService_first_read
          generateDatastoreService_second_read)
    then have "generate_datastores (ds # after) ?net g1 rnd1 = Inl e" by simp
    with pre have "generate_datastores (p_Datastores project) ?net (init_compose (New project)) rnd
        = Inl e"
      by (simp add: split generate_datastores_append)
    then have "Generate X (New project) rnd = Inl e"
      by (simp add: Generate_def Let_def New_def)
    with e show ?thesis by simp
  qed
  have pw: "\<exists>bs. rnd = bs # rest \<and> 8 \<le> length bs \<and> pw = EncodeToString (take 8 bs)"
    if "generatePassword 16 rnd = Inr (pw, rest)" for pw rest
    using generatePassword_16_Inr [OF that] .
  have sp: "\<exists>bs. rnd = bs # rest \<and> 12 \<le> length bs \<and>
         pw = ''Aa1!'' @ map (\<lambda>b. chars ! (unat b mod 67)) (take 12 bs)"
    if run: "generateStrongPassword 16 rnd = Inr (pw, rest)" for pw rest
  proof -
    from run obtain randBytes where r: "rand_Read 12 rnd = Inr (randBytes, rest)"
      and p: "pw = ''Aa1!'' @ map (\<lambda>b. chars ! (unat b mod length chars)) randBytes"
      by (auto simp: generateStrongPassword_16 split: sum.splits)
    from rand_Read_Inr [OF r] p show ?thesis by (auto simp: length_chars)
  qed
  from abort pw sp show ?thesis by blast
qed

theorem failed_read_aborts_generation_witness:
  "p_Datastores demo_project = [] @ hd (p_Datastores demo_project) # [] \<and>
   generate_datastores [] (p_Name demo_project @ ''-network'') (init_compose (New demo_project))
     [[1, 2, 3]] = Inr (init_compose (New demo_project), [[1, 2, 3]]) \<and>
   rand_Read 8 [[1, 2, 3]] = Inl RandReadFatal \<and>
   Generate demo_collaborators (New demo_project) [[1, 2, 3]] = Inl RandReadFatal"
proof -
  have a: "p_Datastores demo_project = [] @ hd (p_Datastores demo_project) # []"
    by (simp add: demo_project_def Project_zero_def)
  have b: "generate_datastores [] (p_Name demo_project @ ''-network'')
      (init_compose (New demo_project)) [[1, 2, 3]]
      = Inr (init_compose (New demo_project), [[1, 2, 3]])"
    by simp
  have c: "rand_Read 8 [[1, 2, 3]] = Inl RandReadFatal"
    by (simp add: rand_Read_def)
  from c have c': "rand_Read 8 [[1, 2, 3]] = Inl RandReadFatal \<or>
      (\<exists>bs rnd2. rand_Read 8 [[1, 2, 3]] = Inr (bs, rnd2) \<and>
         ((ds_Type (hd (p_Datastores demo_project)) = DatastoreMySQL \<and>
           rand_Read 8 rnd2 = Inl RandReadFatal) \<or>
          (ds_Type (hd (p_Datastores demo_project)) = DatastoreMSSQL \<and>
           rand_Read 12 rnd2 = Inl RandReadFatal)))"
    by blast
  note failed_read_aborts_generation [of demo_project "[]" "hd (p_Datastores demo_project)" "[]"
      "[[1, 2, 3]]" "init_compose (New demo_project)" "[[1, 2, 3]]" RandReadFatal
      demo_collaborators, THEN conjunct1, rule_format, OF conjI [OF a conjI [OF b c']],
      THEN conjunct2]
  with a b c show ?thesis by blast
qed

section \<open>Generation and randomness\<close>

text \<open>
  \<open>redact\<close> blanks the value of a variable flagged as secret; two generators have the
  same shape when they agree on everything but the values of secret variables.
\<close>

definition redact :: "EnvVar \<Rightarrow> EnvVar" where
  "redact env = (if ev_Secret env then env\<lparr>ev_Value := []\<rparr> else env)"

definition same_shape :: "Generator \<Rightarrow> Generator \<Rightarrow> bool" where
  "same_shape g g' \<longleftrightarrow>
     g_project g = g_project g' \<and> g_compose g = g_compose g' \<and>
     g_dockerfiles g = g_dockerfiles g' \<and>
     map redact (g_envVars g) = map redact (g_envVars g')"

lemma same_shape_refl: "same_shape g g"
  by (simp add: same_shape_def)

lemma env_example_line_redact: "env_example_line (redact env) = env_example_line env"
  by (simp add: env_example_line_def redact_def)

lemma render_env_example_redact:
  "render_env_example (map redact envVars) = render_env_example envVars"
  by (simp add: render_env_example_def fold_map comp_def env_example_line_redact)

lemma render_env_example_cong:
  "map redact envVars = map redact envVars' \<Longrightarrow>
   render_env_example envVars = render_env_example envVars'"
  by (metis render_env_example_redact)

lemma redact_fields:
  "ev_Key (redact env) = ev_Key env" "ev_Description (redact env) = ev_Description env"
  "ev_Secret (redact env) = ev_Secret env" "\<not> ev_Secret env \<Longrightarrow> redact env = env"
  by (simp_all add: redact_def)

lemma map_redact_eqD:
  assumes "map redact vars = map redact vars'"
  shows "length vars = length vars' \<and>
         (\<forall>i<length vars.
            ev_Key (vars ! i) = ev_Key (vars' ! i) \<and>
            ev_Description (vars ! i) = ev_Description (vars' ! i) \<and>
            ev_Secret (vars ! i) = ev_Secret (vars' ! i) \<and>
            (\<not> ev_Secret (vars ! i) \<longrightarrow> ev_Value (vars ! i) = ev_Value (vars' ! i)))"
proof -
  from assms have len: "length vars = length vars'" by (rule map_eq_imp_length_eq)
  have "ev_Key (vars ! i) = ev_Key (vars' ! i) \<and>
      ev_Description (vars ! i) = ev_Description (vars' ! i) \<and>
      ev_Secret (vars ! i) = ev_Secret (vars' ! i) \<and>
      (\<not> ev_Secret (vars ! i) \<longrightarrow> ev_Value (vars ! i) = ev_Value (vars' ! i))"
    if "i < length vars" for i
  proof -
    from assms have "map redact vars ! i = map redact vars' ! i" by simp
    with that len have r: "redact (vars ! i) = redact (vars' ! i)" by simp
    from r have k: "ev_Key (vars ! i) = ev_Key (vars' ! i)"
      and d: "ev_Description (vars ! i) = ev_Description (vars' ! i)"
      and s: "ev_Secret (vars ! i) = ev_Secret (vars' ! i)"
      by (metis redact_fields(1), metis redact_fields(2), metis redact_fields(3))
    have "ev_Value (vars ! i) = ev_Value (vars' ! i)" if "\<not> ev_Secret (vars ! i)"
      using that r s by (simp add: redact_fields(4))
    with k d s show ?thesis by blast
  qed
  with len show ?thesis by blast
qed

lemma fold_append_concat: "fold (\<lambda>x acc. acc @ f x) xs init = init @ concat (map f xs)"
  by (induction xs arbitrary: init) simp_all

lemma render_env_eq:
  "render_env envVars =
     (''# Generated by stackgen - For local development only'' @ [CHR 0x0A]
      @ ''# WARNING: Do not commit this file to version control'' @ [CHR 0x0A, CHR 0x0A])
     @ concat (map (\<lambda>v. (if ev_Description v \<noteq> [] then ''# '' @ ev_Description v @ [CHR 0x0A]
                          else [])
                         @ ev_Key v @ ''='' @ ev_Value v @ [CHR 0x0A]) envVars)"
  unfolding render_env_def fold_append_concat env_line_def ..

lemma same_shape_store_service:
  assumes "same_shape g g'" and "map redact envs = map redact envs'"
  shows "same_shape (store_service name svc envs g) (store_service name svc envs' g')"
  using assms by (simp add: same_shape_def store_service_def)

lemma add_volume_shape:
  assumes "same_shape g g'" and "add_volume v g = Inr g1" and "add_volume v g' = Inr g1'"
  shows "same_shape g1 g1'"
  using assms by (auto simp: same_shape_def add_volume_def split: option.splits)

lemma generateDatastoreService_shape:
  assumes shape: "same_shape g g'"
    and a: "generateDatastoreService g ds network rnd = Inr (svc, envs, err, g1, r1)"
    and b: "generateDatastoreService g' ds network rnd' = Inr (svc', envs', err', g1', r1')"
  shows "svc = svc' \<and> map redact envs = map redact envs' \<and> err = None \<and> err' = None \<and>
         same_shape g1 g1'"
proof -
  from shape have p: "g_project g' = g_project g"
    by (simp add: same_shape_def)
  let ?v = "ds_Name ds @ ''-data''"
  have svc: "postgres_service g' ds network ?v = postgres_service g ds network ?v"
    "mysql_service g' ds network ?v = mysql_service g ds network ?v"
    "mssql_service g' ds network ?v = mssql_service g ds network ?v"
    "neo4j_service g' ds network ?v = neo4j_service g ds network ?v"
    "redis_service g' ds network ?v = redis_service g ds network ?v"
    "redis_stack_service g' ds network ?v = redis_stack_service g ds network ?v"
    by (simp_all add: postgres_service_def mysql_service_def mssql_service_def
        neo4j_service_def redis_service_def redis_stack_service_def p)
  have envs: "map redact (postgres_envs g ds pw) = map redact (postgres_envs g' ds pw')"
    "map redact (mysql_envs g ds pw rpw) = map redact (mysql_envs g' ds pw' rpw')"
    "map redact (mssql_envs ds pw) = map redact (mssql_envs ds pw')"
    "map redact (neo4j_envs ds pw) = map redact (neo4j_envs ds pw')"
    "map redact (redis_envs ds pw) = map redact (redis_envs ds pw')"
    "map redact (redis_stack_envs ds pw) = map redact (redis_stack_envs ds pw')"
    for pw pw' rpw rpw'
    by (simp_all add: postgres_envs_def mysql_envs_def mssql_envs_def neo4j_envs_def
        redis_envs_def redis_stack_envs_def EnvVar_of_def redact_def p)
  consider "ds_Type ds = DatastorePostgres" | "ds_Type ds = DatastoreMySQL"
    | "ds_Type ds = DatastoreMSSQL" | "ds_Type ds = DatastoreNeo4j"
    | "ds_Type ds = DatastoreRedis" | "ds_Type ds = DatastoreRedisStack"
    | "ds_Type ds \<notin> set AvailableDatastores"
    unfolding AvailableDatastores_def by fastforce
  then show ?thesis
  proof cases
    case 1
    from a obtain pw where A: "svc = postgres_service g ds network ?v"
      "envs = postgres_envs g ds pw" "err = None" "g1 = g"
      by (auto simp: generateDatastoreService_kind(1) [OF 1] split: sum.splits)
    from b obtain pw' where B: "svc' = postgres_service g' ds network ?v"
      "envs' = postgres_envs g' ds pw'" "err' = None" "g1' = g'"
      by (auto simp: generateDatastoreService_kind(1) [OF 1] split: sum.splits)
    show ?thesis unfolding A B svc using envs(1) [of pw pw'] shape by blast
  next
    case 2
    from a obtain pw rpw where A: "svc = mysql_service g ds network ?v"
      "envs = mysql_envs g ds pw rpw" "err = None" "g1 = g"
      by (auto simp: generateDatastoreService_kind(2) [OF 2] split: sum.splits)
    from b obtain pw' rpw' where B: "svc' = mysql_service g' ds network ?v"
      "envs' = mysql_envs g' ds pw' rpw'" "err' = None" "g1' = g'"
      by (auto simp: generateDatastoreService_kind(2) [OF 2] split: sum.splits)
    show ?thesis unfolding A B svc using envs(2) [of pw rpw pw' rpw'] shape by blast
  next
    case 3
    from a obtain pw where A: "svc = mssql_service g ds network ?v"
      "envs = mssql_envs ds pw" "err = None" "g1 = g"
      by (auto simp: generateDatastoreService_kind(3) [OF 3] split: sum.splits)
    from b obtain pw' where B: "svc' = mssql_service g' ds network ?v"
      "envs' = mssql_envs ds pw'" "err' = None" "g1' = g'"
      by (auto simp: generateDatastoreService_kind(3) [OF 3] split: sum.splits)
    show ?thesis unfolding A B svc using envs(3) [of pw pw'] shape by blast
  next
    case 4
    from a obtain pw where A: "svc = neo4j_service g ds network ?v"
      "envs = neo4j_envs ds pw" "err = None"
      and va: "add_volume (ds_Name ds @ ''-logs'') g = Inr g1"
      by (auto simp: generateDatastoreService_kind(4) [OF 4] split: sum.splits)
    from b obtain pw' where B: "svc' = neo4j_service g' ds network ?v"
      "envs' = neo4j_envs ds pw'" "err' = None"
      and vb: "add_volume (ds_Name ds @ ''-logs'') g' = Inr g1'"
      by (auto simp: generateDatastoreService_kind(4) [OF 4] split: sum.splits)
    show ?thesis unfolding A B svc
      using envs(4) [of pw pw'] add_volume_shape [OF shape va vb] by blast
  next
    case 5
    from a obtain pw where A: "svc = redis_service g ds network ?v"
      "envs = redis_envs ds pw" "err = None" "g1 = g"
      by (auto simp: generateDatastoreService_kind(5) [OF 5] split: sum.splits)
    from b obtain pw' where B: "svc' = redis_service g' ds network ?v"
      "envs' = redis_envs ds pw'" "err' = None" "g1' = g'"
      by (auto simp: generateDatastoreService_kind(5) [OF 5] split: sum.splits)
    show ?thesis unfolding A B svc using envs(5) [of pw pw'] shape by blast
  next
    case 6
    from a obtain pw where A: "svc = redis_stack_service g ds network ?v"
      "envs = redis_stack_envs ds pw" "err = None" "g1 = g"
      by (auto simp: generateDatastoreService_kind(6) [OF 6] split: sum.splits)
    from b obtain pw' where B: "svc' = redis_stack_service g' ds network ?v"
      "envs' = redis_stack_envs ds pw'" "err' = None" "g1' = g'"
      by (auto simp: generateDatastoreService_kind(6) [OF 6] split: sum.splits)
    show ?thesis unfolding A B svc using envs(6) [of pw pw'] shape by blast
  next
    case 7
    from a have A: "svc = ComposeService_zero" "envs = []" "err = None" "g1 = g"
      by (auto simp: generateDatastoreService_kind(7) [OF 7] split: sum.splits)
    from b have B: "svc' = ComposeService_zero" "envs' = []" "err' = None" "g1' = g'"
      by (auto simp: generateDatastoreService_kind(7) [OF 7] split: sum.splits)
    show ?thesis unfolding A B using shape by simp
  qed
qed

lemma generate_datastores_Cons_Inr:
  assumes "generate_datastores (ds # dss) network g rnd = Inr (h, q)"
  shows "\<exists>svc envs g1 r1 g2.
           generateDatastoreService g ds network rnd = Inr (svc, envs, None, g1, r1) \<and>
           add_volume (ds_Name ds @ ''-data'') (store_service (ds_Name ds) svc envs g1) = Inr g2 \<and>
           generate_datastores dss network g2 r1 = Inr (h, q)"
  using assms by (auto split: sum.splits option.splits)

lemma generate_datastores_shape:
  "same_shape g g' \<Longrightarrow>
   generate_datastores dss network g rnd = Inr (h, q) \<Longrightarrow>
   generate_datastores dss network g' rnd' = Inr (h', q') \<Longrightarrow> same_shape h h'"
proof (induction dss arbitrary: g g' rnd rnd')
  case Nil
  then show ?case by simp
next
  case (Cons ds dss)
  from generate_datastores_Cons_Inr [OF Cons.prems(2)] obtain svc envs g1 r1 g2 where
    a: "generateDatastoreService g ds network rnd = Inr (svc, envs, None, g1, r1)"
    and va: "add_volume (ds_Name ds @ ''-data'') (store_service (ds_Name ds) svc envs g1) = Inr g2"
    and ra: "generate_datastores dss network g2 r1 = Inr (h, q)"
    by blast
  from generate_datastores_Cons_Inr [OF Cons.prems(3)] obtain svc' envs' g1' r1' g2' where
    b: "generateDatastoreService g' ds network rnd' = Inr (svc', envs', None, g1', r1')"
    and vb: "add_volume (ds_Name ds @ ''-data'') (store_service (ds_Name ds) svc' envs' g1')
      = Inr g2'"
    and rb: "generate_datastores dss network g2' r1' = Inr (h', q')"
    by blast
  from generateDatastoreService_shape [OF Cons.prems(1) a b]
  have s: "svc = svc'" and e: "map redact envs = map redact envs'" and g: "same_shape g1 g1'"
    by simp_all
  have "same_shape (store_service (ds_Name ds) svc envs g1)
      (store_service (ds_Name ds) svc envs' g1')"
    using g e by (rule same_shape_store_service)
  from add_volume_shape [OF this va vb [unfolded s [symmetric]]]
  have "same_shape g2 g2'" .
  from Cons.IH [OF this ra rb] show ?case .
qed

lemma generateRuntimeService_project:
  "g_project g' = g_project g \<Longrightarrow>
   generateRuntimeService X g' rt network = generateRuntimeService X g rt network"
  by (simp add: generateRuntimeService_def)

lemma generateRuntimeService_err:
  "\<exists>svc envs dockerfile. generateRuntimeService X g rt network = (svc, envs, dockerfile, None)"
  by (simp add: generateRuntimeService_def Let_def)

lemma generate_runtimes_shape:
  "same_shape g g' \<Longrightarrow>
   \<exists>g1 g1'.
     generate_runtimes X rts network g = Inr g1 \<and>
     generate_runtimes X rts network g' = Inr g1' \<and> same_shape g1 g1'"
proof (induction rts arbitrary: g g')
  case Nil
  then show ?case by simp
next
  case (Cons rt rts)
  obtain svc envs dockerfile where
    a: "generateRuntimeService X g rt network = (svc, envs, dockerfile, None)"
    using generateRuntimeService_err by blast
  from Cons.prems have "g_project g' = g_project g" by (simp add: same_shape_def)
  from generateRuntimeService_project [OF this, of X rt network] a
  have b: "generateRuntimeService X g' rt network = (svc, envs, dockerfile, None)"
    by simp
  let ?k = "\<lambda>g. let g1 = store_service (rt_Name rt) svc envs g
                in if dockerfile \<noteq> []
                   then g1\<lparr>g_dockerfiles := (g_dockerfiles g1)(rt_Name rt \<mapsto> dockerfile)\<rparr>
                   else g1"
  have "same_shape (?k g) (?k g')"
    using Cons.prems by (simp add: same_shape_def store_service_def Let_def)
  from Cons.IH [OF this] obtain h1 h1' where
    "generate_runtimes X rts network (?k g) = Inr h1"
    "generate_runtimes X rts network (?k g') = Inr h1'" "same_shape h1 h1'"
    by blast
  with a b have "generate_runtimes X (rt # rts) network g = Inr h1"
    "generate_runtimes X (rt # rts) network g' = Inr h1'" "same_shape h1 h1'"
    by (simp_all add: Let_def)
  then show ?case by blast
qed


text \<open>
  C6. Two runs of \<open>Generate\<close> on the same Project that return a bundle, each on a fresh
  generator and whatever the random source delivers to each, return the same compose
  document, the same example environment file, the same ignore file and the same
  Dockerfiles. Each environment file is the fixed header followed by one entry per
  variable (the comment line of its description, if any, and the line key=value); the
  two variable lists have the same length and agree, entry by entry, on key, description
  and secrecy flag, and on the value of every variable not flagged secret. So the two
  bundles differ at most in the values of secret variables in the environment file. The
  compose document is the header followed by what \<open>yaml.Marshal\<close>, a function of the
  compose structure, returns.
\<close>

theorem Generate_shape_independent_of_randomness:
  assumes "Generate X (New project) rnd = Inr (out, g, r)"
    and "Generate X (New project) rnd' = Inr (out', g', r')"
  shows "go_ComposeYAML out = go_ComposeYAML out' \<and>
         go_EnvExampleFile out = go_EnvExampleFile out' \<and>
         go_GitIgnore out = go_GitIgnore out' \<and>
         go_Dockerfiles out = go_Dockerfiles out' \<and>
         (\<exists>vars vars'.
            go_EnvFile out =
              (''# Generated by stackgen - For local development only'' @ [CHR 0x0A]
               @ ''# WARNING: Do not commit this file to version control''
               @ [CHR 0x0A, CHR 0x0A])
              @ concat (map (\<lambda>v. (if ev_Description v \<noteq> []
                                   then ''# '' @ ev_Description v @ [CHR 0x0A] else [])
                                  @ ev_Key v @ ''='' @ ev_Value v @ [CHR 0x0A]) vars) \<and>
            go_EnvFile out' =
              (''# Generated by stackgen - For local development only'' @ [CHR 0x0A]
               @ ''# WARNING: Do not commit this file to version control''
               @ [CHR 0x0A, CHR 0x0A])
              @ concat (map (\<lambda>v. (if ev_Description v \<noteq> []
                                   then ''# '' @ ev_Description v @ [CHR 0x0A] else [])
                                  @ ev_Key v @ ''='' @ ev_Value v @ [CHR 0x0A]) vars') \<and>
            vars = g_envVars g \<and> vars' = g_envVars g' \<and>
            length vars = length vars' \<and>
            (\<forall>i<length vars.
               ev_Key (vars ! i) = ev_Key (vars' ! i) \<and>
               ev_Description (vars ! i) = ev_Description (vars' ! i) \<and>
               ev_Secret (vars ! i) = ev_Secret (vars' ! i) \<and>
               (\<not> ev_Secret (vars ! i) \<longrightarrow> ev_Value (vars ! i) = ev_Value (vars' ! i))))"
proof -
  let ?net = "p_Name project @ ''-network''"
  let ?g0 = "init_compose (New project)"
  have proj: "g_project (New project) = project" by (simp add: New_def)
  from assms(1) obtain g1 where
    d: "generate_datastores (p_Datastores project) ?net ?g0 rnd = Inr (g1, r)"
    and t: "generate_runtimes X (p_Runtimes project) ?net g1 = Inr g"
    and o: "buildOutput X g = Inr out"
    by (auto simp: Generate_def Let_def proj split: sum.splits)
  from assms(2) obtain g1' where
    d': "generate_datastores (p_Datastores project) ?net ?g0 rnd' = Inr (g1', r')"
    and t': "generate_runtimes X (p_Runtimes project) ?net g1' = Inr g'"
    and o': "buildOutput X g' = Inr out'"
    by (auto simp: Generate_def Let_def proj split: sum.splits)
  from generate_datastores_shape [OF same_shape_refl d d'] have s1: "same_shape g1 g1'" .
  from generate_runtimes_shape [OF s1, of X "p_Runtimes project" ?net] t t'
  have s2: "same_shape g g'" by auto
  then have c: "g_compose g' = g_compose g" and k: "g_dockerfiles g' = g_dockerfiles g"
    and e: "map redact (g_envVars g) = map redact (g_envVars g')"
    by (simp_all add: same_shape_def)
  have ex: "render_env_example (g_envVars g) = render_env_example (g_envVars g')"
    using e by (rule render_env_example_cong)
  from o obtain y where y: "yaml_Marshal X (g_compose g) = Inr y"
    and out: "out = \<lparr>go_ComposeYAML = addComposeHeader y,
               go_EnvFile = render_env (g_envVars g),
               go_EnvExampleFile = render_env_example (g_envVars g),
               go_GitIgnore = GitIgnore X,
               go_Dockerfiles = g_dockerfiles g\<rparr>"
    by (auto simp: buildOutput_def split: sum.splits)
  from o' y have out': "out' = \<lparr>go_ComposeYAML = addComposeHeader y,
               go_EnvFile = render_env (g_envVars g'),
               go_EnvExampleFile = render_env_example (g_envVars g'),
               go_GitIgnore = GitIgnore X,
               go_Dockerfiles = g_dockerfiles g'\<rparr>"
    by (auto simp: buildOutput_def c split: sum.splits)
  have same: "go_ComposeYAML out = go_ComposeYAML out'"
    "go_EnvExampleFile out = go_EnvExampleFile out'"
    "go_GitIgnore out = go_GitIgnore out'" "go_Dockerfiles out = go_Dockerfiles out'"
    by (simp_all add: out out' ex k)
  have f: "go_EnvFile out = render_env (g_envVars g)" "go_EnvFile out' = render_env (g_envVars g')"
    by (simp_all add: out out')
  note texts = f [unfolded render_env_eq]
  from same texts map_redact_eqD [OF e] show ?thesis by blast
qed

theorem Generate_shape_independent_of_randomness_witness:
  "\<exists>out g out' g'.
      Generate demo_collaborators (New demo_project) [[1, 2, 3, 4, 5, 6, 7, 8]] = Inr (out, g, []) \<and>
      Generate demo_collaborators (New demo_project) [[8, 7, 6, 5, 4, 3, 2, 1]] = Inr (out', g', []) \<and>
      go_ComposeYAML out = go_ComposeYAML out' \<and>
      go_EnvExampleFile out = go_EnvExampleFile out' \<and>
      length (g_envVars g) = length (g_envVars g') \<and>
      ev_Value (hd (g_envVars g)) = ''0102030405060708'' \<and>
      ev_Value (hd (g_envVars g')) = ''0807060504030201''"
proof -
  let ?G = "\<lambda>rnd. Generate demo_collaborators (New demo_project) rnd"
  have pw: "generatePassword 16 [[1, 2, 3, 4, 5, 6, 7, 8]] = Inr (''0102030405060708'', [])"
    "generatePassword 16 [[8, 7, 6, 5, 4, 3, 2, 1]] = Inr (''0807060504030201'', [])"
    by (simp_all add: generatePassword_16 rand_Read_def hextable_def drop_bit_eq_div)
  have v: "\<exists>out g. ?G [[1, 2, 3, 4, 5, 6, 7, 8]] = Inr (out, g, []) \<and>
      ev_Value (hd (g_envVars g)) = ''0102030405060708''"
    by (simp add: Generate_def init_compose_def New_def demo_project_def Project_zero_def
        Datastore_zero_def Runtime_zero_def kind_defs Let_def generateDatastoreService_def pw
        redis_envs_def store_service_def add_volume_def generateRuntimeService_def
        buildOutput_def demo_collaborators_def port_envs_def EnvVar_of_def)
  have v': "\<exists>out g. ?G [[8, 7, 6, 5, 4, 3, 2, 1]] = Inr (out, g, []) \<and>
      ev_Value (hd (g_envVars g)) = ''0807060504030201''"
    by (simp add: Generate_def init_compose_def New_def demo_project_def Project_zero_def
        Datastore_zero_def Runtime_zero_def kind_defs Let_def generateDatastoreService_def pw
        redis_envs_def store_service_def add_volume_def generateRuntimeService_def
        buildOutput_def demo_collaborators_def port_envs_def EnvVar_of_def)
  from v obtain out g where a: "?G [[1, 2, 3, 4, 5, 6, 7, 8]] = Inr (out, g, [])"
    and va: "ev_Value (hd (g_envVars g)) = ''0102030405060708''"
    by blast
  from v' obtain out' g' where b: "?G [[8, 7, 6, 5, 4, 3, 2, 1]] = Inr (out', g', [])"
    and vb: "ev_Value (hd (g_envVars g')) = ''0807060504030201''"
    by blast
  from Generate_shape_independent_of_randomness [OF a b]
  have "go_ComposeYAML out = go_ComposeYAML out'"
    "go_EnvExampleFile out = go_EnvExampleFile out'"
    "length (g_envVars g) = length (g_envVars g')"
    by auto
  with a b va vb show ?thesis by blast
qed

end
